theory Spec2Isabelle
  imports Complex_Main
begin

text \<open>
  A shallow embedding of the attendance service (\<^verbatim>\<open>app/services/attendance_service.py\<close> with
  the models it uses), of the face matcher (\<^verbatim>\<open>ml_models/face_detector.py\<close>), of the gallery
  builder (\<^verbatim>\<open>ml_models/face_trainer.py\<close>) and of the recognition service
  (\<^verbatim>\<open>app/services/face_recognition_service.py\<close>), followed by the properties proved of them.
  An operation takes the store and returns the store it leaves; a raised exception is a value
  of \<open>error\<close>, returned with the store as of the last commit.
\<close>

section \<open>Data model of the attendance store\<close>

text \<open>
  The rows of \<^verbatim>\<open>app/models\<close>: one record per model class, with the columns the attendance
  service reads or writes. A nullable column, or one that a constructor call may leave out, is
  an \<open>option\<close>. Points in time are integers counting seconds, calendar dates integers counting days; every reading of the clock
  (\<^verbatim>\<open>datetime.now()\<close>) is the argument \<open>now\<close> of the operation that reads it.
\<close>

type_synonym datetime = int
type_synonym date = int

datatype error = KeyError string | ValueError string | IntegrityError string | IndexError string

record class_room =
  c_id :: int

record student =
  s_id :: int
  s_student_code :: string
  s_full_name :: string
  s_classroom_id :: "int option"
  s_is_active :: bool
  s_face_images_count :: int

record attendance_log =
  l_id :: int
  l_classroom_id :: int
  l_session_date :: date
  l_session_type :: string
  l_start_time :: datetime
  l_end_time :: "datetime option"
  l_total_students :: int
  l_present_count :: int
  l_absent_count :: int
  l_late_count :: int
  l_excused_count :: int
  l_is_finalized :: bool
  l_recorded_by_id :: "int option"

record attendance =
  a_id :: int
  a_student_id :: int
  a_classroom_id :: "int option"
  a_attendance_log_id :: int
  a_status :: string
  a_check_in_time :: "datetime option"
  a_check_in_image_url :: "string option"
  a_face_confidence :: real
  a_is_face_recognized :: bool
  a_notes :: "string option"
  a_recorded_by_id :: "int option"
  a_updated_at :: datetime

record db =
  classrooms :: "class_room list"
  students :: "student list"
  attendance_logs :: "attendance_log list"
  attendances :: "attendance list"

subsection \<open>Constants and validators\<close>

text \<open>
  \<^verbatim>\<open>app/utils/constants.py\<close> binds \<^verbatim>\<open>ERROR_MESSAGES\<close> twice; the second binding, with
  lower-case keys, is the one in force. A lookup of an upper-case key, as the attendance
  service writes it, therefore raises \<^verbatim>\<open>KeyError\<close> where a \<^verbatim>\<open>ValueError\<close> carrying the message
  was meant. Either way the operation raises.
\<close>

definition ERROR_MESSAGES :: "string list" where
  "ERROR_MESSAGES =
     [''invalid_email'', ''email_exists'', ''username_exists'', ''student_code_exists'',
      ''invalid_password'', ''account_not_found'', ''classroom_not_found'',
      ''student_not_found'', ''invalid_image'', ''image_too_large'',
      ''invalid_academic_year'', ''classroom_full'', ''duplicate_attendance'',
      ''permission_denied'', ''invalid_role'']"

definition raise_error_message :: "string \<Rightarrow> error" where
  "raise_error_message k = (if k \<in> set ERROR_MESSAGES then ValueError k else KeyError k)"

definition ATTENDANCE_STATUSES :: "string list" where
  "ATTENDANCE_STATUSES = [''present'', ''absent'', ''late'', ''excused'']"

definition MIN_FACE_CONFIDENCE :: real where
  "MIN_FACE_CONFIDENCE = 80 / 100"

definition DEFAULT_FACE_CONFIDENCE :: real where
  "DEFAULT_FACE_CONFIDENCE = 6 / 10"

definition AUTO_MARK_ABSENT_HOURS :: int where
  "AUTO_MARK_ABSENT_HOURS = 8"

definition is_valid_attendance_status :: "string \<Rightarrow> bool" where
  "is_valid_attendance_status status \<longleftrightarrow> status \<in> set ATTENDANCE_STATUSES"

definition is_valid_session_type :: "string \<Rightarrow> bool" where
  "is_valid_session_type session_type \<longleftrightarrow> session_type \<in> set [''morning'', ''afternoon'']"

definition is_valid_confidence_score :: "real \<Rightarrow> bool" where
  "is_valid_confidence_score confidence \<longleftrightarrow> 0 \<le> confidence \<and> confidence \<le> 1"

subsection \<open>The store: queries, inserts, updates\<close>

text \<open>
  A table is the list of its rows in insertion order; \<^verbatim>\<open>query(...).filter_by(...).first()\<close>
  is \<^const>\<open>find\<close>, \<^verbatim>\<open>.all()\<close> is \<^const>\<open>filter\<close>, \<^verbatim>\<open>.count()\<close> its length. An insert
  gives the row the next primary key and is refused with \<^verbatim>\<open>IntegrityError\<close> when it breaks a
  constraint the model class declares: \<^verbatim>\<open>nullable=False\<close> on \<^verbatim>\<open>Attendance.classroom_id\<close>, and
  the two \<^verbatim>\<open>UniqueConstraint\<close>s. An update writes the row that has the object's primary key.
\<close>

definition next_id :: "int list \<Rightarrow> int" where
  "next_id ids = fold max ids 0 + 1"

definition same_session :: "int \<Rightarrow> date \<Rightarrow> string \<Rightarrow> attendance_log \<Rightarrow> bool" where
  "same_session classroom_id session_date session_type l \<longleftrightarrow>
     l_classroom_id l = classroom_id \<and> l_session_date l = session_date
     \<and> l_session_type l = session_type"

definition same_record :: "int \<Rightarrow> int \<Rightarrow> attendance \<Rightarrow> bool" where
  "same_record student_id attendance_log_id a \<longleftrightarrow>
     a_student_id a = student_id \<and> a_attendance_log_id a = attendance_log_id"

definition active_in :: "int \<Rightarrow> student \<Rightarrow> bool" where
  "active_in classroom_id s \<longleftrightarrow> s_classroom_id s = Some classroom_id \<and> s_is_active s"

definition insert_log :: "db \<Rightarrow> attendance_log \<Rightarrow> error + (attendance_log \<times> db)" where
  "insert_log d l =
     (if find (same_session (l_classroom_id l) (l_session_date l) (l_session_type l))
              (attendance_logs d) \<noteq> None
      then Inl (IntegrityError ''unique_session_per_classroom'')
      else (let row = l\<lparr>l_id := next_id (map l_id (attendance_logs d))\<rparr>
            in Inr (row, d\<lparr>attendance_logs := attendance_logs d @ [row]\<rparr>)))"

definition insert_attendance :: "db \<Rightarrow> attendance \<Rightarrow> error + (attendance \<times> db)" where
  "insert_attendance d a =
     (if a_classroom_id a = None then Inl (IntegrityError ''attendances.classroom_id'')
      else if find (same_record (a_student_id a) (a_attendance_log_id a)) (attendances d) \<noteq> None
      then Inl (IntegrityError ''unique_student_per_log'')
      else (let row = a\<lparr>a_id := next_id (map a_id (attendances d))\<rparr>
            in Inr (row, d\<lparr>attendances := attendances d @ [row]\<rparr>)))"

definition update_attendance :: "db \<Rightarrow> attendance \<Rightarrow> db" where
  "update_attendance d a =
     d\<lparr>attendances := map (\<lambda>b. if a_id b = a_id a then a else b) (attendances d)\<rparr>"

definition update_log :: "db \<Rightarrow> attendance_log \<Rightarrow> db" where
  "update_log d l =
     d\<lparr>attendance_logs := map (\<lambda>m. if l_id m = l_id l then l else m) (attendance_logs d)\<rparr>"

section \<open>The attendance service\<close>

subsection \<open>\<^verbatim>\<open>AttendanceService.create_or_get_attendance_log\<close>\<close>

definition create_or_get_attendance_log ::
  "db \<Rightarrow> int \<Rightarrow> date \<Rightarrow> string \<Rightarrow> datetime option \<Rightarrow> int option \<Rightarrow> datetime
     \<Rightarrow> (error + attendance_log) \<times> db" where
  "create_or_get_attendance_log d classroom_id session_date session_type start_time
       recorded_by_id now =
     (case find (\<lambda>c. c_id c = classroom_id) (classrooms d) of
        None \<Rightarrow> (Inl (raise_error_message ''CLASSROOM_NOT_FOUND''), d)
      | Some classroom \<Rightarrow>
          if \<not> is_valid_session_type session_type
          then (Inl (ValueError ''Invalid session type''), d)
          else
            (case find (same_session classroom_id session_date session_type)
                       (attendance_logs d) of
               Some alog \<Rightarrow> (Inr alog, d)
             | None \<Rightarrow>
                 (let total_students =
                        int (length (filter (active_in classroom_id) (students d)));
                      alog = \<lparr>l_id = 0, l_classroom_id = classroom_id,
                             l_session_date = session_date, l_session_type = session_type,
                             l_start_time = (case start_time of Some t \<Rightarrow> t | None \<Rightarrow> now),
                             l_end_time = None, l_total_students = total_students,
                             l_present_count = 0, l_absent_count = 0, l_late_count = 0,
                             l_excused_count = 0, l_is_finalized = False,
                             l_recorded_by_id = recorded_by_id\<rparr>
                  in case insert_log d alog of
                       Inl e \<Rightarrow> (Inl e, d)
                     | Inr (row, d') \<Rightarrow> (Inr row, d'))))"

subsection \<open>\<^verbatim>\<open>AttendanceService.record_attendance\<close>\<close>

definition record_attendance ::
  "db \<Rightarrow> int \<Rightarrow> int \<Rightarrow> string \<Rightarrow> real \<Rightarrow> bool \<Rightarrow> string option \<Rightarrow> int option
     \<Rightarrow> string option \<Rightarrow> datetime \<Rightarrow> (error + attendance) \<times> db" where
  "record_attendance d student_id attendance_log_id status face_confidence is_face_recognized
       check_in_image_url recorded_by_id notes now =
     (case find (\<lambda>s. s_id s = student_id) (students d) of
        None \<Rightarrow> (Inl (raise_error_message ''STUDENT_NOT_FOUND''), d)
      | Some student \<Rightarrow>
     (case find (\<lambda>l. l_id l = attendance_log_id) (attendance_logs d) of
        None \<Rightarrow> (Inl (raise_error_message ''ATTENDANCE_LOG_NOT_FOUND''), d)
      | Some alog \<Rightarrow>
          if \<not> is_valid_attendance_status status
          then (Inl (raise_error_message ''INVALID_ATTENDANCE_STATUS''), d)
          else if face_confidence \<noteq> 0 \<and> \<not> is_valid_confidence_score face_confidence
          then (Inl (ValueError ''Invalid confidence score''), d)
          else
            (case find (same_record student_id attendance_log_id) (attendances d) of
               Some existing \<Rightarrow>
                 if face_confidence > a_face_confidence existing
                 then (let updated = existing\<lparr>a_face_confidence := face_confidence,
                                              a_status := status, a_updated_at := now\<rparr>
                       in (Inr updated, update_attendance d updated))
                 else (Inr existing, d)
             | None \<Rightarrow>
                 (let attendance =
                        \<lparr>a_id = 0, a_student_id = student_id,
                         a_classroom_id = Some (l_classroom_id alog),
                         a_attendance_log_id = attendance_log_id, a_status = status,
                         a_check_in_time = Some now,
                         a_check_in_image_url = check_in_image_url,
                         a_face_confidence = face_confidence,
                         a_is_face_recognized = is_face_recognized, a_notes = notes,
                         a_recorded_by_id = recorded_by_id, a_updated_at = now\<rparr>
                  in case insert_attendance d attendance of
                       Inl e \<Rightarrow> (Inl e, d)
                     | Inr (row, d') \<Rightarrow> (Inr row, d')))))"

subsection \<open>\<^verbatim>\<open>AttendanceLog.calculate_statistics\<close> and \<^verbatim>\<open>AttendanceLog.get_attendance_rate\<close>\<close>

definition count_status :: "string \<Rightarrow> attendance list \<Rightarrow> int" where
  "count_status status records = int (length (filter (\<lambda>r. a_status r = status) records))"

definition calculate_statistics :: "db \<Rightarrow> attendance_log \<Rightarrow> attendance_log" where
  "calculate_statistics d self =
     (let total_students =
            int (length (filter (active_in (l_classroom_id self)) (students d)));
          self1 = (if l_total_students self = 0
                   then self\<lparr>l_total_students := total_students\<rparr> else self);
          records = filter (\<lambda>a. a_attendance_log_id a = l_id self) (attendances d)
      in self1\<lparr>l_present_count := count_status ''present'' records,
               l_absent_count := count_status ''absent'' records,
               l_late_count := count_status ''late'' records,
               l_excused_count := count_status ''excused'' records\<rparr>)"

definition get_attendance_rate :: "attendance_log \<Rightarrow> real" where
  "get_attendance_rate self =
     (if l_total_students self = 0 then 0
      else (real_of_int (l_present_count self) / real_of_int (l_total_students self)) * 100)"

subsection \<open>\<^verbatim>\<open>AttendanceService.finalize_attendance_log\<close>\<close>

definition finalize_attendance_log ::
  "db \<Rightarrow> int \<Rightarrow> datetime \<Rightarrow> (error + attendance_log) \<times> db" where
  "finalize_attendance_log d attendance_log_id now =
     (case find (\<lambda>l. l_id l = attendance_log_id) (attendance_logs d) of
        None \<Rightarrow> (Inl (ValueError ''Attendance log not found''), d)
      | Some alog \<Rightarrow>
          (let total_students =
                 int (length (filter (active_in (l_classroom_id alog)) (students d)));
               counted = calculate_statistics d (alog\<lparr>l_total_students := total_students\<rparr>);
               finalized = counted\<lparr>l_is_finalized := True, l_end_time := Some now\<rparr>
           in (Inr finalized, update_log d finalized)))"

subsection \<open>\<^verbatim>\<open>AttendanceService.mark_absent_unrecorded\<close>\<close>

text \<open>
  The loop adds one \<^verbatim>\<open>Attendance\<close> per active student that has no record yet. The constructor
  call passes \<^verbatim>\<open>student_id\<close>, \<^verbatim>\<open>attendance_log_id\<close>, \<^verbatim>\<open>status\<close> and \<^verbatim>\<open>notes\<close> only, so
  \<open>a_classroom_id\<close> of the new row is \<open>None\<close>. The session flushes a pending row before the
  next query and at the commit; the model inserts it at once, and an \<^verbatim>\<open>IntegrityError\<close> ends
  the loop as the exception does. The \<^verbatim>\<open>except\<close> branch rolls back to the last commit, which
  is the one made by \<^verbatim>\<open>create_or_get_attendance_log\<close>.
\<close>

definition absent_row :: "int \<Rightarrow> int \<Rightarrow> datetime \<Rightarrow> attendance" where
  "absent_row student_id attendance_log_id now =
     \<lparr>a_id = 0, a_student_id = student_id, a_classroom_id = None,
      a_attendance_log_id = attendance_log_id, a_status = ''absent'',
      a_check_in_time = None, a_check_in_image_url = None, a_face_confidence = 0,
      a_is_face_recognized = False,
      a_notes = Some ''Auto-marked absent after deadline'',
      a_recorded_by_id = None, a_updated_at = now\<rparr>"

fun mark_absent_loop ::
  "db \<Rightarrow> int \<Rightarrow> datetime \<Rightarrow> student list \<Rightarrow> nat \<Rightarrow> error + (nat \<times> db)" where
  "mark_absent_loop w log_id now [] marked_count = Inr (marked_count, w)"
| "mark_absent_loop w log_id now (st # rest) marked_count =
     (case find (same_record (s_id st) log_id) (attendances w) of
        Some existing \<Rightarrow> mark_absent_loop w log_id now rest marked_count
      | None \<Rightarrow>
          (case insert_attendance w (absent_row (s_id st) log_id now) of
             Inl e \<Rightarrow> Inl e
           | Inr (row, w') \<Rightarrow> mark_absent_loop w' log_id now rest (marked_count + 1)))"

definition mark_absent_unrecorded ::
  "db \<Rightarrow> int \<Rightarrow> date \<Rightarrow> string \<Rightarrow> datetime \<Rightarrow> (error + nat) \<times> db" where
  "mark_absent_unrecorded d classroom_id session_date session_type now =
     (case find (\<lambda>c. c_id c = classroom_id) (classrooms d) of
        None \<Rightarrow> (Inl (raise_error_message ''CLASSROOM_NOT_FOUND''), d)
      | Some classroom \<Rightarrow>
          (case create_or_get_attendance_log d classroom_id session_date session_type
                  None None now of
             (Inl e, d1) \<Rightarrow> (Inl e, d1)
           | (Inr alog, d1) \<Rightarrow>
               (case mark_absent_loop d1 (l_id alog) now
                       (filter (active_in classroom_id) (students d1)) 0 of
                  Inl e \<Rightarrow> (Inl e, d1)
                | Inr (marked_count, d2) \<Rightarrow> (Inr marked_count, d2))))"

subsection \<open>\<^verbatim>\<open>AttendanceService.auto_mark_absent_after_deadline\<close>\<close>

text \<open>
  One \<^verbatim>\<open>try\<close> encloses the whole loop over the stale logs, and its \<^verbatim>\<open>except\<close> branch logs the
  exception and raises it again: the first session that fails ends the run. The statements
  after that \<^verbatim>\<open>raise\<close> in the source are unreachable and have no counterpart here.
\<close>

fun sweep_loop :: "db \<Rightarrow> datetime \<Rightarrow> attendance_log list \<Rightarrow> nat \<Rightarrow> (error + nat) \<times> db" where
  "sweep_loop d now [] total_marked = (Inr total_marked, d)"
| "sweep_loop d now (l # rest) total_marked =
     (case mark_absent_unrecorded d (l_classroom_id l) (l_session_date l)
             (l_session_type l) now of
        (Inl e, d1) \<Rightarrow> (Inl e, d1)
      | (Inr marked, d1) \<Rightarrow>
          (case finalize_attendance_log d1 (l_id l) now of
             (Inl e, d2) \<Rightarrow> (Inl e, d2)
           | (Inr finalized, d2) \<Rightarrow> sweep_loop d2 now rest (total_marked + marked)))"

definition old_logs :: "db \<Rightarrow> datetime \<Rightarrow> attendance_log list" where
  "old_logs d now =
     (let cutoff_time = now - AUTO_MARK_ABSENT_HOURS * 3600
      in filter (\<lambda>l. l_start_time l \<le> cutoff_time \<and> l_is_finalized l = False)
           (attendance_logs d))"

definition auto_mark_absent_after_deadline :: "db \<Rightarrow> datetime \<Rightarrow> (error + nat) \<times> db" where
  "auto_mark_absent_after_deadline d now = sweep_loop d now (old_logs d now) 0"

section \<open>The matcher: \<^verbatim>\<open>ml_models/face_detector.py\<close>\<close>

text \<open>
  The face library is outside the repository. An image is represented by what the library
  finds in it: the list of its faces, each a location and an encoding, in the order the library
  returns them (the rescaling of the locations of a downsized image is left out). The
  distance between two encodings, \<^verbatim>\<open>face_recognition.face_distance\<close>, is the parameter \<open>distance\<close>.
  The model file is the pair of lists that was pickled, or \<open>None\<close> when there is no readable
  file.
\<close>

record 'e face_detector =
  confidence_threshold :: real
  known_encodings :: "'e list"
  known_names :: "string list"
  model_loaded :: bool

record 'loc face_result =
  r_location :: 'loc
  r_name :: string
  r_confidence :: real

definition FaceDetector :: "real \<Rightarrow> 'e face_detector" where
  "FaceDetector threshold =
     \<lparr>confidence_threshold = threshold, known_encodings = [], known_names = [],
      model_loaded = False\<rparr>"

definition load_model ::
  "'e face_detector \<Rightarrow> ('e list \<times> string list) option \<Rightarrow> bool \<times> 'e face_detector" where
  "load_model self model_file =
     (case model_file of
        None \<Rightarrow> (False, self)
      | Some (encodings, names) \<Rightarrow>
          (let self1 = self\<lparr>known_encodings := encodings, known_names := names\<rparr>
           in if encodings = [] \<or> names = [] then (False, self1)
              else (True, self1\<lparr>model_loaded := True\<rparr>)))"

definition detect_faces :: "'e face_detector \<Rightarrow> ('loc \<times> 'e) list \<Rightarrow> 'loc list \<times> 'e list" where
  "detect_faces self img =
     (if \<not> model_loaded self then ([], []) else (map fst img, map snd img))"

text \<open>\<^verbatim>\<open>numpy.argmin\<close>: the index of the first occurrence of the least element.\<close>

fun argmin :: "real list \<Rightarrow> nat" where
  "argmin [] = 0"
| "argmin [x] = 0"
| "argmin (x # y # ys) =
     (let i = argmin (y # ys) in if x \<le> (y # ys) ! i then 0 else Suc i)"

definition face_distance :: "('e \<Rightarrow> 'e \<Rightarrow> real) \<Rightarrow> 'e list \<Rightarrow> 'e \<Rightarrow> real list" where
  "face_distance distance encodings face_encoding = map (\<lambda>k. distance k face_encoding) encodings"

definition recognize_face ::
  "'e face_detector \<Rightarrow> ('e \<Rightarrow> 'e \<Rightarrow> real) \<Rightarrow> 'e \<Rightarrow> error + (string option \<times> real)" where
  "recognize_face self distance face_encoding =
     (if \<not> model_loaded self then Inr (None, 0)
      else if known_encodings self = [] then Inr (None, 0)
      else
        (let face_distances = face_distance distance (known_encodings self) face_encoding;
             best_match_index = argmin face_distances;
             best_distance = face_distances ! best_match_index;
             confidence = 1 - best_distance
         in if confidence \<ge> confidence_threshold self
            then (if best_match_index < length (known_names self)
                  then Inr (Some (known_names self ! best_match_index), confidence)
                  else Inl (IndexError ''list index out of range''))
            else Inr (None, confidence)))"

fun recognize_each ::
  "'e face_detector \<Rightarrow> ('e \<Rightarrow> 'e \<Rightarrow> real) \<Rightarrow> ('loc \<times> 'e) list
     \<Rightarrow> error + 'loc face_result list" where
  "recognize_each self distance [] = Inr []"
| "recognize_each self distance ((location, encoding) # rest) =
     (case recognize_face self distance encoding of
        Inl e \<Rightarrow> Inl e
      | Inr (name, confidence) \<Rightarrow>
          (case recognize_each self distance rest of
             Inl e \<Rightarrow> Inl e
           | Inr results \<Rightarrow>
               Inr (\<lparr>r_location = location,
                     r_name = (case name of
                                 None \<Rightarrow> ''Unknown''
                               | Some n \<Rightarrow> if n = [] then ''Unknown'' else n),
                     r_confidence = confidence\<rparr> # results)))"

definition recognize_faces_in_image ::
  "'e face_detector \<Rightarrow> ('e \<Rightarrow> 'e \<Rightarrow> real) \<Rightarrow> ('loc \<times> 'e) list
     \<Rightarrow> error + 'loc face_result list" where
  "recognize_faces_in_image self distance img =
     (case detect_faces self img of
        (face_locations, face_encodings) \<Rightarrow>
          recognize_each self distance (zip face_locations face_encodings))"

section \<open>The recognition service: \<^verbatim>\<open>app/services/face_recognition_service.py\<close>\<close>

text \<open>
  The two class attributes \<^verbatim>\<open>_detector\<close> and \<^verbatim>\<open>_model_trained\<close> are the state of the service.
  A refusal is returned as the second component of a pair in the source, with a message; here
  it is a value of \<open>refusal\<close>.
\<close>

record 'e face_service =
  detector :: "'e face_detector option"
  model_trained :: bool

datatype refusal =
  Model_not_loaded | No_face_detected | Confidence_too_low real | Face_not_recognized
  | Student_not_in_this_class

record 'loc student_match =
  m_student :: "student option"
  m_confidence :: real
  m_location :: 'loc

definition init_detector ::
  "'e face_service \<Rightarrow> ('e list \<times> string list) option \<Rightarrow> real \<Rightarrow> bool \<times> 'e face_service" where
  "init_detector svc model_file threshold =
     (case load_model (FaceDetector threshold) model_file of
        (loaded, det) \<Rightarrow>
          if loaded then (True, svc\<lparr>detector := Some det, model_trained := True\<rparr>)
          else (False, svc\<lparr>detector := Some det\<rparr>))"

text \<open>
  \<^verbatim>\<open>init_detector\<close> assigns the new detector before it tries to load the model, so after it the
  service has a detector; the last branch of \<open>get_detector\<close> is there for totality only.
\<close>

definition get_detector ::
  "'e face_service \<Rightarrow> ('e list \<times> string list) option \<Rightarrow> 'e face_detector \<times> 'e face_service" where
  "get_detector svc model_file =
     (case detector svc of
        Some det \<Rightarrow> (det, svc)
      | None \<Rightarrow>
          (case init_detector svc model_file DEFAULT_FACE_CONFIDENCE of
             (ok, svc') \<Rightarrow>
               (case detector svc' of
                  Some det \<Rightarrow> (det, svc')
                | None \<Rightarrow> (FaceDetector DEFAULT_FACE_CONFIDENCE, svc'))))"

text \<open>\<^verbatim>\<open>max(faces, key=...)\<close>: the first face of greatest confidence.\<close>

fun max_confidence :: "'loc face_result \<Rightarrow> 'loc face_result list \<Rightarrow> 'loc face_result" where
  "max_confidence best [] = best"
| "max_confidence best (f # fs) =
     max_confidence (if r_confidence f > r_confidence best then f else best) fs"

definition recognize_student_face ::
  "'e face_service \<Rightarrow> ('e list \<times> string list) option \<Rightarrow> ('e \<Rightarrow> 'e \<Rightarrow> real) \<Rightarrow> db
     \<Rightarrow> ('loc \<times> 'e) list \<Rightarrow> int option
     \<Rightarrow> (error + (refusal + 'loc student_match)) \<times> 'e face_service" where
  "recognize_student_face svc model_file distance d image_rgb classroom_id =
     (case get_detector svc model_file of
        (det, svc') \<Rightarrow>
          if \<not> model_loaded det then (Inr (Inl Model_not_loaded), svc')
          else
            (case recognize_faces_in_image det distance image_rgb of
               Inl e \<Rightarrow> (Inl e, svc')
             | Inr [] \<Rightarrow> (Inr (Inl No_face_detected), svc')
             | Inr (f # fs) \<Rightarrow>
                 (let best_face = max_confidence f fs
                  in if r_confidence best_face < MIN_FACE_CONFIDENCE
                     then (Inr (Inl (Confidence_too_low (r_confidence best_face))), svc')
                     else if r_name best_face = ''Unknown''
                     then (Inr (Inl Face_not_recognized), svc')
                     else
                       (let student = find (\<lambda>s. s_full_name s = r_name best_face
                                                \<and> s_is_active s) (students d)
                        in if (case classroom_id of None \<Rightarrow> False | Some c \<Rightarrow> c \<noteq> 0)
                              \<and> (case student of
                                    None \<Rightarrow> False
                                  | Some s \<Rightarrow> s_classroom_id s \<noteq> classroom_id)
                           then (Inr (Inl Student_not_in_this_class), svc')
                           else (Inr (Inr \<lparr>m_student = student,
                                           m_confidence = r_confidence best_face,
                                           m_location = r_location best_face\<rparr>), svc')))))"

section \<open>Gallery construction: \<^verbatim>\<open>ml_models/face_trainer.py\<close>\<close>

text \<open>
  An image file is its name and, when OpenCV reads it, the image, represented by the list of
  the encodings of the faces the library finds in it (empty when it finds none or the
  extraction fails). The faces directory is the list of its person folders, each with its files,
  in the order in which the directory is listed. A training message is the text of the source
  with its parameters.

  \<^verbatim>\<open>save_model\<close> opens the model file for writing, which empties it, and dumps the pair of
  lists into it; an exception on the way is logged and the function returns \<^verbatim>\<open>None\<close> for the
  path. What the write does is an input of the model: it succeeds, or it fails before the file
  is opened and the old file is still there, or it fails after the file was emptied and no
  readable file is left.
\<close>

record 'e image_file =
  f_name :: string
  f_image :: "'e list option"

datatype train_message =
  Folder_not_found string
  | Not_enough_images string nat int
  | No_valid_face_encodings string
  | Successfully_trained string nat nat

definition lower_char :: "char \<Rightarrow> char" where
  "lower_char c =
     (case map_of (zip ''ABCDEFGHIJKLMNOPQRSTUVWXYZ'' ''abcdefghijklmnopqrstuvwxyz'') c of
        Some l \<Rightarrow> l
      | None \<Rightarrow> c)"

definition lower :: "string \<Rightarrow> string" where
  "lower s = map lower_char s"

definition endswith :: "string \<Rightarrow> string \<Rightarrow> bool" where
  "endswith s ext \<longleftrightarrow> length ext \<le> length s \<and> drop (length s - length ext) s = ext"

definition supported_extensions :: "string list" where
  "supported_extensions = [''.jpg'', ''.jpeg'', ''.png'', ''.bmp'', ''.gif'']"

definition is_supported :: "string \<Rightarrow> bool" where
  "is_supported filename \<longleftrightarrow> list_ex (endswith (lower filename)) supported_extensions"

fun load_images_from_folder :: "'e image_file list \<Rightarrow> 'e list list" where
  "load_images_from_folder [] = []"
| "load_images_from_folder (f # fs) =
     (if is_supported (f_name f)
      then (case f_image f of
              Some img \<Rightarrow> img # load_images_from_folder fs
            | None \<Rightarrow> load_images_from_folder fs)
      else load_images_from_folder fs)"

definition extract_face_encodings :: "'e list \<Rightarrow> 'e list" where
  "extract_face_encodings img = img"

fun collect_encodings :: "'e list list \<Rightarrow> 'e list" where
  "collect_encodings [] = []"
| "collect_encodings (img # imgs) =
     (case extract_face_encodings img of
        [] \<Rightarrow> collect_encodings imgs
      | e # es \<Rightarrow> e # collect_encodings imgs)"

definition train_person ::
  "(string \<times> 'e image_file list) list \<Rightarrow> string \<Rightarrow> int \<Rightarrow> bool \<times> train_message \<times> 'e list" where
  "train_person student_faces_dir person_name min_images =
     (case map_of student_faces_dir person_name of
        None \<Rightarrow> (False, Folder_not_found person_name, [])
      | Some person_folder \<Rightarrow>
          (let images = load_images_from_folder person_folder
           in if int (length images) < min_images
              then (False, Not_enough_images person_name (length images) min_images, [])
              else
                (let all_encodings = collect_encodings images
                 in if all_encodings = []
                    then (False, No_valid_face_encodings person_name, [])
                    else (True,
                          Successfully_trained person_name (length all_encodings)
                            (length images),
                          all_encodings))))"

datatype write_outcome = Written | Open_failed | Write_failed

definition save_model ::
  "'e list \<Rightarrow> string list \<Rightarrow> write_outcome \<Rightarrow> ('e list \<times> string list) option
     \<Rightarrow> string option \<times> ('e list \<times> string list) option" where
  "save_model encodings names outcome model_file =
     (case outcome of
        Written \<Rightarrow> (Some ''face_encodings.pkl'', Some (encodings, names))
      | Open_failed \<Rightarrow> (None, model_file)
      | Write_failed \<Rightarrow> (None, None))"

record trained_person =
  tp_name :: string
  tp_encodings_count :: nat
  tp_message :: train_message

record failed_person =
  fp_name :: string
  fp_message :: train_message

record 'e training =
  acc_encodings :: "'e list"
  acc_names :: "string list"
  acc_trained :: "trained_person list"
  acc_failed :: "failed_person list"

record train_all_results =
  ta_success :: bool
  ta_total_encodings :: "nat option"
  ta_trained_persons :: "trained_person list"
  ta_failed_persons :: "failed_person list"
  ta_model_path :: "string option"

fun train_all_loop ::
  "(string \<times> 'e image_file list) list \<Rightarrow> int \<Rightarrow> string list \<Rightarrow> 'e training \<Rightarrow> 'e training" where
  "train_all_loop student_faces_dir min_images [] acc = acc"
| "train_all_loop student_faces_dir min_images (person_name # rest) acc =
     train_all_loop student_faces_dir min_images rest
       (case train_person student_faces_dir person_name min_images of
          (success, message, encodings) \<Rightarrow>
            if success
            then acc\<lparr>acc_encodings := acc_encodings acc @ encodings,
                     acc_names := acc_names acc @ replicate (length encodings) person_name,
                     acc_trained := acc_trained acc
                        @ [\<lparr>tp_name = person_name, tp_encodings_count = length encodings,
                             tp_message = message\<rparr>]\<rparr>
            else acc\<lparr>acc_failed := acc_failed acc
                        @ [\<lparr>fp_name = person_name, fp_message = message\<rparr>]\<rparr>)"

text \<open>
  The flag of \<^verbatim>\<open>train_all\<close> that the source calls \<^verbatim>\<open>save_model\<close>, like the method, is \<open>save\<close>
  here.
\<close>

definition train_all ::
  "(string \<times> 'e image_file list) list option \<Rightarrow> ('e list \<times> string list) option
     \<Rightarrow> write_outcome \<Rightarrow> int \<Rightarrow> bool
     \<Rightarrow> train_all_results \<times> ('e list \<times> string list) option" where
  "train_all student_faces_dir model_file outcome min_images save =
     (case student_faces_dir of
        None \<Rightarrow>
          (\<lparr>ta_success = False, ta_total_encodings = None, ta_trained_persons = [],
            ta_failed_persons = [], ta_model_path = None\<rparr>, model_file)
      | Some person_folders \<Rightarrow>
          if person_folders = []
          then (\<lparr>ta_success = False, ta_total_encodings = None, ta_trained_persons = [],
                 ta_failed_persons = [], ta_model_path = None\<rparr>, model_file)
          else
            (let acc = train_all_loop person_folders min_images (map fst person_folders)
                         \<lparr>acc_encodings = [], acc_names = [], acc_trained = [],
                          acc_failed = []\<rparr>;
                 written = (if save \<and> acc_encodings acc \<noteq> []
                            then save_model (acc_encodings acc) (acc_names acc) outcome
                                   model_file
                            else (None, model_file))
             in (\<lparr>ta_success = (length (acc_trained acc) > 0),
                  ta_total_encodings = Some (length (acc_encodings acc)),
                  ta_trained_persons = acc_trained acc,
                  ta_failed_persons = acc_failed acc, ta_model_path = fst written\<rparr>,
                 snd written)))"

section \<open>\<^verbatim>\<open>FaceRecognitionService.train_model\<close>\<close>

text \<open>
  The service trains the active students that have at least three registered images and a
  folder, named by the student code, with at least two image files. A trained student's
  encodings go into the gallery under the student's full name. The \<^verbatim>\<open>except\<close> branch of the
  loop has no counterpart here, since \<^const>\<open>train_person\<close> raises nothing.
\<close>

record trained_student =
  ts_student_code :: string
  ts_full_name :: string
  ts_encodings_count :: nat
  ts_message :: train_message

record failed_student =
  fs_student_code :: string
  fs_full_name :: string
  fs_message :: train_message

record 'e student_training =
  st_encodings :: "'e list"
  st_names :: "string list"
  st_trained :: "trained_student list"
  st_failed :: "failed_student list"

record train_model_results =
  tm_success :: bool
  tm_trained_count :: nat
  tm_failed_count :: nat
  tm_total_encodings :: "nat option"
  tm_trained_persons :: "trained_student list"
  tm_failed_persons :: "failed_student list"
  tm_model_path :: "string option"

definition has_image_folder :: "(string \<times> 'e image_file list) list \<Rightarrow> student \<Rightarrow> bool" where
  "has_image_folder student_faces_dir s =
     (case map_of student_faces_dir (s_student_code s) of
        None \<Rightarrow> False
      | Some folder \<Rightarrow> length (filter (\<lambda>f. is_supported (f_name f)) folder) \<ge> 2)"

fun train_model_loop ::
  "(string \<times> 'e image_file list) list \<Rightarrow> student list \<Rightarrow> 'e student_training
     \<Rightarrow> 'e student_training" where
  "train_model_loop student_faces_dir [] acc = acc"
| "train_model_loop student_faces_dir (s # rest) acc =
     train_model_loop student_faces_dir rest
       (case train_person student_faces_dir (s_student_code s) 2 of
          (success, message, encodings) \<Rightarrow>
            if success \<and> encodings \<noteq> []
            then acc\<lparr>st_encodings := st_encodings acc @ encodings,
                     st_names := st_names acc @ replicate (length encodings) (s_full_name s),
                     st_trained := st_trained acc
                        @ [\<lparr>ts_student_code = s_student_code s, ts_full_name = s_full_name s,
                             ts_encodings_count = length encodings, ts_message = message\<rparr>]\<rparr>
            else acc\<lparr>st_failed := st_failed acc
                        @ [\<lparr>fs_student_code = s_student_code s, fs_full_name = s_full_name s,
                             fs_message = message\<rparr>]\<rparr>)"

definition train_model ::
  "'e face_service \<Rightarrow> db \<Rightarrow> (string \<times> 'e image_file list) list
     \<Rightarrow> ('e list \<times> string list) option \<Rightarrow> write_outcome
     \<Rightarrow> train_model_results \<times> ('e list \<times> string list) option \<times> 'e face_service" where
  "train_model svc d student_faces_dir model_file outcome =
     (let ready = filter (\<lambda>s. s_is_active s \<and> s_face_images_count s \<ge> 3) (students d)
      in if ready = []
         then (\<lparr>tm_success = False, tm_trained_count = 0, tm_failed_count = 0,
                tm_total_encodings = None, tm_trained_persons = [],
                tm_failed_persons = [], tm_model_path = None\<rparr>, model_file, svc)
         else
           (let students_with_folders = filter (has_image_folder student_faces_dir) ready
            in if students_with_folders = []
               then (\<lparr>tm_success = False, tm_trained_count = 0,
                      tm_failed_count = length ready, tm_total_encodings = None,
                      tm_trained_persons = [], tm_failed_persons = [],
                      tm_model_path = None\<rparr>, model_file, svc)
               else
                 (let acc = train_model_loop student_faces_dir students_with_folders
                              \<lparr>st_encodings = [], st_names = [], st_trained = [],
                               st_failed = []\<rparr>;
                      results = \<lparr>tm_success = (length (st_trained acc) > 0),
                                 tm_trained_count = length (st_trained acc),
                                 tm_failed_count = length (st_failed acc),
                                 tm_total_encodings = Some (length (st_encodings acc)),
                                 tm_trained_persons = st_trained acc,
                                 tm_failed_persons = st_failed acc,
                                 tm_model_path = None\<rparr>
                  in if st_encodings acc \<noteq> []
                     then (case save_model (st_encodings acc) (st_names acc) outcome
                                  model_file of
                             (model_path, written) \<Rightarrow>
                               (results\<lparr>tm_model_path := model_path\<rparr>, written,
                                svc\<lparr>model_trained := True,
                                    detector :=
                                      (case detector svc of
                                         None \<Rightarrow> None
                                       | Some det \<Rightarrow> Some (snd (load_model det written)))\<rparr>))
                     else (results, model_file, svc))))"

subsection \<open>Well-formed stores\<close>

text \<open>
  Primary keys are distinct, and so are the keys of the two unique constraints.
\<close>

definition wf_db :: "db \<Rightarrow> bool" where
  "wf_db d \<longleftrightarrow>
     distinct (map a_id (attendances d))
     \<and> distinct (map (\<lambda>a. (a_student_id a, a_attendance_log_id a)) (attendances d))
     \<and> distinct (map l_id (attendance_logs d))
     \<and> distinct (map (\<lambda>l. (l_classroom_id l, l_session_date l, l_session_type l))
          (attendance_logs d))"

definition records_of :: "int \<Rightarrow> int \<Rightarrow> db \<Rightarrow> attendance list" where
  "records_of student_id attendance_log_id d =
     filter (same_record student_id attendance_log_id) (attendances d)"

text \<open>The row that \<^const>\<open>create_or_get_attendance_log\<close> stores for a new session.\<close>

definition new_log :: "db \<Rightarrow> int \<Rightarrow> date \<Rightarrow> string \<Rightarrow> datetime option \<Rightarrow> int option \<Rightarrow> datetime \<Rightarrow> attendance_log" where
  "new_log d classroom_id session_date session_type start_time rb now =
     \<lparr>l_id = next_id (map l_id (attendance_logs d)), l_classroom_id = classroom_id,
      l_session_date = session_date, l_session_type = session_type,
      l_start_time = (case start_time of Some t \<Rightarrow> t | None \<Rightarrow> now),
      l_end_time = None,
      l_total_students = int (length (filter (active_in classroom_id) (students d))),
      l_present_count = 0, l_absent_count = 0, l_late_count = 0,
      l_excused_count = 0, l_is_finalized = False, l_recorded_by_id = rb\<rparr>"

subsection \<open>A small store for the concrete instances\<close>

definition example_student :: "int \<Rightarrow> student" where
  "example_student i =
     \<lparr>s_id = i, s_student_code = ''HS'', s_full_name = ''An'', s_classroom_id = Some 1,
      s_is_active = True, s_face_images_count = 3\<rparr>"

definition example_log :: "int \<Rightarrow> string \<Rightarrow> attendance_log" where
  "example_log i session_type =
     \<lparr>l_id = i, l_classroom_id = 1, l_session_date = 0, l_session_type = session_type,
      l_start_time = 0, l_end_time = None, l_total_students = 0, l_present_count = 0,
      l_absent_count = 0, l_late_count = 0, l_excused_count = 0, l_is_finalized = False,
      l_recorded_by_id = None\<rparr>"

definition example_record :: "real \<Rightarrow> attendance" where
  "example_record c =
     \<lparr>a_id = 1, a_student_id = 1, a_classroom_id = Some 1, a_attendance_log_id = 1,
      a_status = ''present'', a_check_in_time = Some 10, a_check_in_image_url = Some ''a.jpg'',
      a_face_confidence = c, a_is_face_recognized = True, a_notes = Some ''camera 1'',
      a_recorded_by_id = Some 7, a_updated_at = 10\<rparr>"

definition example_db :: "attendance list \<Rightarrow> db" where
  "example_db records =
     \<lparr>classrooms = [\<lparr>c_id = 1\<rparr>], students = [example_student 1],
      attendance_logs = [example_log 1 ''morning''], attendances = records\<rparr>"

definition example_store :: "student list \<Rightarrow> attendance_log list \<Rightarrow> attendance list \<Rightarrow> db" where
  "example_store roster logs records =
     \<lparr>classrooms = [\<lparr>c_id = 1\<rparr>], students = roster, attendance_logs = logs,
      attendances = records\<rparr>"

definition example_record_of :: "int \<Rightarrow> int \<Rightarrow> int \<Rightarrow> string \<Rightarrow> attendance" where
  "example_record_of i student_id attendance_log_id status =
     \<lparr>a_id = i, a_student_id = student_id, a_classroom_id = Some 1,
      a_attendance_log_id = attendance_log_id, a_status = status, a_check_in_time = Some 10,
      a_check_in_image_url = None, a_face_confidence = 9 / 10, a_is_face_recognized = True,
      a_notes = None, a_recorded_by_id = None, a_updated_at = 10\<rparr>"

definition example_finalize_db :: db where
  "example_finalize_db =
     example_store
       [example_student 1, example_student 2, (example_student 3)\<lparr>s_is_active := False\<rparr>]
       [(example_log 1 ''morning'')\<lparr>l_total_students := 5\<rparr>]
       [example_record_of 1 1 1 ''present'', example_record_of 2 2 1 ''absent'']"

definition example_sweep_db :: db where
  "example_sweep_db =
     example_store [example_student 1]
       [(example_log 1 ''morning'')\<lparr>l_classroom_id := 9\<rparr>, example_log 2 ''morning'']
       [example_record_of 1 1 2 ''present'']"

definition example_blocked_db :: "bool \<Rightarrow> db" where
  "example_blocked_db first_finalized =
     example_store [example_student 1]
       [(example_log 1 ''morning'')\<lparr>l_total_students := (if first_finalized then 1 else 0),
           l_present_count := (if first_finalized then 1 else 0),
           l_is_finalized := first_finalized,
           l_end_time := (if first_finalized then Some 28801 else None)\<rparr>,
        example_log 2 ''afternoon'',
        (example_log 3 ''morning'')\<lparr>l_session_date := 1\<rparr>]
       [example_record_of 1 1 1 ''present'']"

subsection \<open>Values used in the statements about the matcher\<close>

text \<open>
  \<open>labelled\<close> is the entry that the statements below expect for one face: the label and the
  confidence of the first nearest gallery entry. \<open>no_gallery\<close> says that the service has no
  loaded gallery: its detector, if it has one, is not loaded, and otherwise there is no usable
  model file to load. The example gallery has one-dimensional encodings, with the absolute
  difference as the distance.
\<close>

definition example_distance :: "real \<Rightarrow> real \<Rightarrow> real" where
  "example_distance a b = \<bar>a - b\<bar>"

definition example_detector :: "real face_detector" where
  "example_detector =
     \<lparr>confidence_threshold = 6 / 10, known_encodings = [0, 4, 2 / 10],
      known_names = [''An'', ''Binh'', ''An''], model_loaded = True\<rparr>"

definition labelled ::
  "'e face_detector \<Rightarrow> ('e \<Rightarrow> 'e \<Rightarrow> real) \<Rightarrow> 'loc \<times> 'e \<Rightarrow> 'loc face_result" where
  "labelled self distance face =
     (let i = argmin (face_distance distance (known_encodings self) (snd face));
          confidence = 1 - distance (known_encodings self ! i) (snd face)
      in \<lparr>r_location = fst face,
          r_name = (if confidence \<ge> confidence_threshold self \<and> known_names self ! i \<noteq> []
                    then known_names self ! i else ''Unknown''),
          r_confidence = confidence\<rparr>)"

definition no_gallery :: "'e face_service \<Rightarrow> ('e list \<times> string list) option \<Rightarrow> bool" where
  "no_gallery svc model_file =
     (case detector svc of
        Some det \<Rightarrow> \<not> model_loaded det
      | None \<Rightarrow>
          (case model_file of
             None \<Rightarrow> True
           | Some (encodings, names) \<Rightarrow> encodings = [] \<or> names = []))"

definition example_service :: "real face_service" where
  "example_service = \<lparr>detector = None, model_trained = False\<rparr>"

subsection \<open>Values used in the statements about the gallery\<close>

text \<open>
  \<open>trains\<close> says that \<^const>\<open>train_person\<close> succeeds for a folder name, \<open>encodings_of\<close> is what
  it returns then, and the entries are the rows that the two loops append. \<open>candidates\<close> are
  the students that pass the two filters of \<^const>\<open>train_model\<close>. The example directory has
  three folders: \<open>A\<close> with three images of one face or more, \<open>B\<close> with a single image, and
  \<open>C\<close> with an image of a face, an image without a face and a file that is no image.
\<close>

definition example_faces_dir :: "(string \<times> real image_file list) list" where
  "example_faces_dir =
     [(''A'', [\<lparr>f_name = ''1.jpg'', f_image = Some [1 / 10]\<rparr>,
              \<lparr>f_name = ''2.PNG'', f_image = Some [2 / 10]\<rparr>,
              \<lparr>f_name = ''3.jpeg'', f_image = Some [3 / 10, 9]\<rparr>]),
      (''B'', [\<lparr>f_name = ''1.jpg'', f_image = Some [5]\<rparr>]),
      (''C'', [\<lparr>f_name = ''1.jpg'', f_image = Some [7]\<rparr>,
              \<lparr>f_name = ''2.jpg'', f_image = Some []\<rparr>,
              \<lparr>f_name = ''notes.txt'', f_image = None\<rparr>])]"

definition trained_entry :: "(string \<times> 'e image_file list) list \<Rightarrow> int \<Rightarrow> string \<Rightarrow> trained_person" where
  "trained_entry student_faces_dir min_images person_name =
     (case train_person student_faces_dir person_name min_images of
        (success, message, encodings) \<Rightarrow>
          \<lparr>tp_name = person_name, tp_encodings_count = length encodings, tp_message = message\<rparr>)"

definition failed_entry :: "(string \<times> 'e image_file list) list \<Rightarrow> int \<Rightarrow> string \<Rightarrow> failed_person" where
  "failed_entry student_faces_dir min_images person_name =
     \<lparr>fp_name = person_name,
      fp_message = fst (snd (train_person student_faces_dir person_name min_images))\<rparr>"

definition trains :: "(string \<times> 'e image_file list) list \<Rightarrow> int \<Rightarrow> string \<Rightarrow> bool" where
  "trains student_faces_dir min_images person_name =
     fst (train_person student_faces_dir person_name min_images)"

definition encodings_of :: "(string \<times> 'e image_file list) list \<Rightarrow> int \<Rightarrow> string \<Rightarrow> 'e list" where
  "encodings_of student_faces_dir min_images person_name =
     snd (snd (train_person student_faces_dir person_name min_images))"

definition trained_student_entry ::
  "(string \<times> 'e image_file list) list \<Rightarrow> student \<Rightarrow> trained_student" where
  "trained_student_entry student_faces_dir s =
     \<lparr>ts_student_code = s_student_code s, ts_full_name = s_full_name s,
      ts_encodings_count = length (encodings_of student_faces_dir 2 (s_student_code s)),
      ts_message = fst (snd (train_person student_faces_dir (s_student_code s) 2))\<rparr>"

definition failed_student_entry ::
  "(string \<times> 'e image_file list) list \<Rightarrow> student \<Rightarrow> failed_student" where
  "failed_student_entry student_faces_dir s =
     \<lparr>fs_student_code = s_student_code s, fs_full_name = s_full_name s,
      fs_message = fst (snd (train_person student_faces_dir (s_student_code s) 2))\<rparr>"

definition student_trains :: "(string \<times> 'e image_file list) list \<Rightarrow> student \<Rightarrow> bool" where
  "student_trains student_faces_dir s = trains student_faces_dir 2 (s_student_code s)"

definition candidates :: "db \<Rightarrow> (string \<times> 'e image_file list) list \<Rightarrow> student list" where
  "candidates d student_faces_dir =
     filter (has_image_folder student_faces_dir)
       (filter (\<lambda>s. s_is_active s \<and> s_face_images_count s \<ge> 3) (students d))"

definition example_pupil :: "int \<Rightarrow> string \<Rightarrow> string \<Rightarrow> int \<Rightarrow> student" where
  "example_pupil i code full_name images_count =
     \<lparr>s_id = i, s_student_code = code, s_full_name = full_name, s_classroom_id = Some 1,
      s_is_active = True, s_face_images_count = images_count\<rparr>"

definition example_training_db :: db where
  "example_training_db =
     example_store
       [example_pupil 1 ''A'' ''An'' 3, example_pupil 2 ''B'' ''Binh'' 1,
        example_pupil 3 ''C'' ''Chi'' 3] [] []"

section \<open>Verified properties\<close>

subsection \<open>Lists and keys\<close>

lemma fold_max_ge: "(a::int) \<le> fold max xs a"
proof (induction xs arbitrary: a)
  case Nil
  then show ?case by simp
next
  case (Cons x xs)
  have "a \<le> max x a" by simp
  also have "max x a \<le> fold max xs (max x a)" by (rule Cons.IH)
  finally show ?case by simp
qed

lemma fold_max_mem: "x \<in> set xs \<Longrightarrow> (x::int) \<le> fold max xs a"
proof (induction xs arbitrary: a)
  case Nil
  then show ?case by simp
next
  case (Cons y ys)
  show ?case
  proof (cases "x = y")
    case True
    have "max y a \<le> fold max ys (max y a)" by (rule fold_max_ge)
    with True show ?thesis by simp
  next
    case False
    with Cons show ?thesis by simp
  qed
qed

lemma next_id_fresh: "next_id ids \<notin> set ids"
proof
  assume "next_id ids \<in> set ids"
  then have "next_id ids \<le> fold max ids 0" by (rule fold_max_mem)
  then show False by (simp add: next_id_def)
qed

lemma find_filter_unique:
  "distinct (map f xs) \<Longrightarrow> find (\<lambda>x. f x = k) xs = Some y \<Longrightarrow> filter (\<lambda>x. f x = k) xs = [y]"
proof (induction xs)
  case Nil
  then show ?case by simp
next
  case (Cons x xs)
  show ?case
  proof (cases "f x = k")
    case True
    with Cons.prems have "y = x" by simp
    moreover have "filter (\<lambda>x. f x = k) xs = []"
    proof -
      from Cons.prems(1) have "f x \<notin> f ` set xs" by simp
      with True have "\<forall>z \<in> set xs. f z \<noteq> k" by blast
      then show ?thesis by (simp add: filter_empty_conv)
    qed
    ultimately show ?thesis using True by simp
  next
    case False
    with Cons show ?thesis by simp
  qed
qed

lemma same_record_key:
  "same_record S L = (\<lambda>a. (a_student_id a, a_attendance_log_id a) = (S, L))"
  by (auto simp: same_record_def fun_eq_iff)

lemma same_session_key:
  "same_session c dt ty = (\<lambda>l. (l_classroom_id l, l_session_date l, l_session_type l) = (c, dt, ty))"
  by (auto simp: same_session_def fun_eq_iff)

lemma records_of_unique:
  "wf_db d \<Longrightarrow> find (same_record S L) (attendances d) = Some y \<Longrightarrow> records_of S L d = [y]"
  unfolding records_of_def same_record_key wf_db_def
  by (rule find_filter_unique) auto

lemma find_Some_mem: "find P xs = Some y \<Longrightarrow> y \<in> set xs \<and> P y"
  by (induction xs) (auto split: if_splits)

lemma map_update_filter:
  assumes "distinct (map f xs)" and "y \<in> set xs" and "P u = P y"
  shows "filter P (map (\<lambda>b. if f b = f y then u else b) xs)
         = map (\<lambda>b. if f b = f y then u else b) (filter P xs)"
proof -
  have "\<And>b. b \<in> set xs \<Longrightarrow> f b = f y \<Longrightarrow> b = y"
    using assms(1,2) by (meson distinct_map inj_onD)
  then have "\<And>b. b \<in> set xs \<Longrightarrow> P (if f b = f y then u else b) = P b"
    using assms(3) by auto
  then show ?thesis
    by (induction xs) auto
qed

subsection \<open>Evaluation of the definitions\<close>

lemmas example_defs = example_student_def example_log_def example_record_def example_db_def

lemmas store_defs = insert_attendance_def insert_log_def update_attendance_def update_log_def
  next_id_def same_record_def same_session_def active_in_def raise_error_message_def
  ERROR_MESSAGES_def is_valid_attendance_status_def ATTENDANCE_STATUSES_def
  is_valid_session_type_def is_valid_confidence_score_def Let_def

lemma example_first_call:
  "record_attendance (example_db []) 1 1 ''present'' (70 / 100) True (Some ''a.jpg'') (Some 7)
      (Some ''camera 1'') 10 = (Inr (example_record (70 / 100)), example_db [example_record (70 / 100)])"
  by (simp add: record_attendance_def example_defs store_defs)


subsection \<open>Updating a stored record\<close>

lemma record_attendance_existing_eq:
  assumes "find (\<lambda>s. s_id s = S) (students d) \<noteq> None"
    and "find (\<lambda>l. l_id l = L) (attendance_logs d) \<noteq> None"
    and "is_valid_attendance_status status"
    and "0 \<le> c" and "c \<le> 1"
    and "find (same_record S L) (attendances d) = Some existing"
  shows "record_attendance d S L status c rcg url rb notes now =
           (if a_face_confidence existing < c
            then (Inr (existing\<lparr>a_face_confidence := c, a_status := status, a_updated_at := now\<rparr>),
                  update_attendance d
                    (existing\<lparr>a_face_confidence := c, a_status := status, a_updated_at := now\<rparr>))
            else (Inr existing, d))"
  using assms
  by (auto simp: record_attendance_def is_valid_confidence_score_def Let_def)

lemma record_attendance_existing_length:
  assumes "find (same_record S L) (attendances d) = Some existing"
  shows "length (attendances (snd (record_attendance d S L status c rcg url rb notes now)))
           = length (attendances d)"
  using assms
  by (auto simp: record_attendance_def update_attendance_def Let_def split: option.splits)

lemma records_of_update:
  assumes "wf_db d" and "find (same_record S L) (attendances d) = Some existing"
    and "same_record S L u" and "a_id u = a_id existing"
  shows "records_of S L (update_attendance d u) = [u]"
proof -
  from assms(2) have mem: "existing \<in> set (attendances d)" and key: "same_record S L existing"
    by (auto dest: find_Some_mem)
  from assms(1) have dist: "distinct (map a_id (attendances d))"
    by (simp add: wf_db_def)
  have "filter (same_record S L) (map (\<lambda>b. if a_id b = a_id existing then u else b) (attendances d))
          = map (\<lambda>b. if a_id b = a_id existing then u else b) (filter (same_record S L) (attendances d))"
    using dist mem by (rule map_update_filter) (simp add: key assms(3))
  moreover have "filter (same_record S L) (attendances d) = [existing]"
    using records_of_unique[OF assms(1,2)] by (simp add: records_of_def)
  ultimately show ?thesis
    by (simp add: records_of_def update_attendance_def assms(4))
qed

lemma others_update:
  assumes "wf_db d" and "find (same_record S L) (attendances d) = Some existing"
    and "same_record S L u" and "a_id u = a_id existing"
  shows "filter (\<lambda>a. \<not> same_record S L a) (attendances (update_attendance d u))
           = filter (\<lambda>a. \<not> same_record S L a) (attendances d)"
proof -
  from assms(2) have mem: "existing \<in> set (attendances d)" and key: "same_record S L existing"
    by (auto dest: find_Some_mem)
  from assms(1) have dist: "distinct (map a_id (attendances d))"
    by (simp add: wf_db_def)
  have "filter (\<lambda>a. \<not> same_record S L a) (map (\<lambda>b. if a_id b = a_id existing then u else b) (attendances d))
          = map (\<lambda>b. if a_id b = a_id existing then u else b) (filter (\<lambda>a. \<not> same_record S L a) (attendances d))"
    using dist mem by (rule map_update_filter) (simp add: key assms(3))
  also have "\<dots> = filter (\<lambda>a. \<not> same_record S L a) (attendances d)"
  proof -
    have "\<And>b. b \<in> set (attendances d) \<Longrightarrow> a_id b = a_id existing \<Longrightarrow> b = existing"
      using dist mem by (meson distinct_map inj_onD)
    then have "\<And>b. b \<in> set (filter (\<lambda>a. \<not> same_record S L a) (attendances d))
                 \<Longrightarrow> (if a_id b = a_id existing then u else b) = b"
      using key by auto
    then show ?thesis by (rule map_idI)
  qed
  finally show ?thesis by (simp add: update_attendance_def assms(4))
qed

subsection \<open>Recording attendance for a student that already has a record\<close>

text \<open>
  Claim C1. When \<^const>\<open>record_attendance\<close> is called for a student and a session that
  already have a record, with a valid status and a confidence in \<open>[0, 1]\<close>, no row is
  added. If the new confidence is strictly above the stored one, the call returns the stored
  row with the new confidence and status, and that row is the only record of the pair
  afterwards; otherwise the call returns the stored row and the store is unchanged, the stored
  row still being the only record of the pair.
\<close>

theorem record_attendance_existing_no_duplicate:
  assumes wf: "wf_db d"
    and existing: "find (same_record S L) (attendances d) = Some existing"
    and student: "find (\<lambda>s. s_id s = S) (students d) \<noteq> None"
    and alog: "find (\<lambda>l. l_id l = L) (attendance_logs d) \<noteq> None"
    and status: "is_valid_attendance_status status"
    and conf: "0 \<le> c" "c \<le> 1"
  shows "length (attendances (snd (record_attendance d S L status c rcg url rb notes now)))
           = length (attendances d)
       \<and> (a_face_confidence existing < c \<longrightarrow>
            fst (record_attendance d S L status c rcg url rb notes now)
              = Inr (existing\<lparr>a_face_confidence := c, a_status := status, a_updated_at := now\<rparr>)
          \<and> records_of S L (snd (record_attendance d S L status c rcg url rb notes now))
              = [existing\<lparr>a_face_confidence := c, a_status := status, a_updated_at := now\<rparr>])
       \<and> (\<not> a_face_confidence existing < c \<longrightarrow>
            record_attendance d S L status c rcg url rb notes now = (Inr existing, d)
          \<and> records_of S L d = [existing])"
proof -
  let ?u = "existing\<lparr>a_face_confidence := c, a_status := status, a_updated_at := now\<rparr>"
  note eq = record_attendance_existing_eq[OF student alog status conf existing]
  from existing have key: "same_record S L existing" by (auto dest: find_Some_mem)
  then have ukey: "same_record S L ?u" by (simp add: same_record_def)
  have "records_of S L (update_attendance d ?u) = [?u]"
    using wf existing ukey by (rule records_of_update) simp
  moreover have "records_of S L d = [existing]"
    using wf existing by (rule records_of_unique)
  moreover have "length (attendances (snd (record_attendance d S L status c rcg url rb notes now)))
           = length (attendances d)"
    using existing by (rule record_attendance_existing_length)
  ultimately show ?thesis
    by (simp add: eq)
qed

theorem record_attendance_existing_no_duplicate_witness:
  "record_attendance (example_db []) 1 1 ''present'' (70 / 100) True (Some ''a.jpg'') (Some 7)
      (Some ''camera 1'') 10 = (Inr (example_record (70 / 100)), example_db [example_record (70 / 100)])
   \<and> wf_db (example_db [example_record (70 / 100)])
   \<and> find (same_record 1 1) (attendances (example_db [example_record (70 / 100)]))
        = Some (example_record (70 / 100))
   \<and> records_of 1 1 (snd (record_attendance (example_db [example_record (70 / 100)]) 1 1
        ''present'' (95 / 100) True (Some ''b.jpg'') None None 20))
        = [(example_record (95 / 100))\<lparr>a_updated_at := 20\<rparr>]
   \<and> wf_db (example_db [example_record (95 / 100)])
   \<and> record_attendance (example_db [example_record (95 / 100)]) 1 1
        ''present'' (70 / 100) True (Some ''b.jpg'') None None 20
        = (Inr (example_record (95 / 100)), example_db [example_record (95 / 100)])
   \<and> records_of 1 1 (example_db [example_record (95 / 100)]) = [example_record (95 / 100)]"
proof -
  have wf: "wf_db (example_db [example_record c])" for c
    by (simp add: wf_db_def example_defs)
  have ex: "find (same_record 1 1) (attendances (example_db [example_record c]))
              = Some (example_record c)" for c
    by (simp add: example_defs same_record_def)
  have st: "find (\<lambda>s. s_id s = 1) (students (example_db [example_record c])) \<noteq> None" for c
    by (simp add: example_defs)
  have lg: "find (\<lambda>l. l_id l = 1) (attendance_logs (example_db [example_record c])) \<noteq> None" for c
    by (simp add: example_defs)
  have vs: "is_valid_attendance_status ''present''"
    by (simp add: store_defs)
  have a: "a_face_confidence (example_record c) = c" for c
    by (simp add: example_defs)
  have u: "(example_record (70 / 100))\<lparr>a_face_confidence := 95 / 100, a_status := ''present'',
             a_updated_at := 20\<rparr> = (example_record (95 / 100))\<lparr>a_updated_at := 20\<rparr>"
    by (simp add: example_defs)
  from record_attendance_existing_no_duplicate[OF wf ex st lg vs, of "95 / 100" "70 / 100" True
         "Some ''b.jpg''" None None 20]
  have 1: "records_of 1 1 (snd (record_attendance (example_db [example_record (70 / 100)]) 1 1
        ''present'' (95 / 100) True (Some ''b.jpg'') None None 20))
        = [(example_record (95 / 100))\<lparr>a_updated_at := 20\<rparr>]"
    by (simp add: a) (simp add: example_defs)
  from record_attendance_existing_no_duplicate[OF wf ex st lg vs, of "70 / 100" "95 / 100" True
         "Some ''b.jpg''" None None 20]
  have 2: "record_attendance (example_db [example_record (95 / 100)]) 1 1
        ''present'' (70 / 100) True (Some ''b.jpg'') None None 20
        = (Inr (example_record (95 / 100)), example_db [example_record (95 / 100)])
      \<and> records_of 1 1 (example_db [example_record (95 / 100)]) = [example_record (95 / 100)]"
    by (simp add: a)
  show ?thesis
    using example_first_call wf ex 1 2 by simp
qed

text \<open>
  Claim C10. When the merge takes place (the new confidence is strictly above the stored one),
  the returned row is the only record of the pair, it carries the new confidence, the new
  status and the time of the call as \<open>a_updated_at\<close>, and it agrees with the stored row on
  every other column: check-in time, check-in image, the recognised flag, notes and
  recorded-by among them. Every record of another pair, and every other table, is unchanged.
\<close>

theorem record_attendance_merge_frame:
  assumes wf: "wf_db d"
    and existing: "find (same_record S L) (attendances d) = Some existing"
    and student: "find (\<lambda>s. s_id s = S) (students d) \<noteq> None"
    and alog: "find (\<lambda>l. l_id l = L) (attendance_logs d) \<noteq> None"
    and status: "is_valid_attendance_status status"
    and conf: "a_face_confidence existing < c" "0 \<le> c" "c \<le> 1"
  shows "\<exists>r d'. record_attendance d S L status c rcg url rb notes now = (Inr r, d')
       \<and> records_of S L d' = [r]
       \<and> a_face_confidence r = c \<and> a_status r = status \<and> a_updated_at r = now
       \<and> a_check_in_time r = a_check_in_time existing
       \<and> a_check_in_image_url r = a_check_in_image_url existing
       \<and> a_is_face_recognized r = a_is_face_recognized existing
       \<and> a_notes r = a_notes existing
       \<and> a_recorded_by_id r = a_recorded_by_id existing
       \<and> r\<lparr>a_face_confidence := a_face_confidence existing, a_status := a_status existing,
            a_updated_at := a_updated_at existing\<rparr> = existing
       \<and> filter (\<lambda>a. \<not> same_record S L a) (attendances d')
            = filter (\<lambda>a. \<not> same_record S L a) (attendances d)
       \<and> students d' = students d \<and> attendance_logs d' = attendance_logs d
       \<and> classrooms d' = classrooms d"
proof -
  let ?u = "existing\<lparr>a_face_confidence := c, a_status := status, a_updated_at := now\<rparr>"
  have eq: "record_attendance d S L status c rcg url rb notes now = (Inr ?u, update_attendance d ?u)"
    using record_attendance_existing_eq[OF student alog status conf(2,3) existing] conf(1) by simp
  from existing have key: "same_record S L existing" by (auto dest: find_Some_mem)
  then have ukey: "same_record S L ?u" by (simp add: same_record_def)
  have 1: "records_of S L (update_attendance d ?u) = [?u]"
    using wf existing ukey by (rule records_of_update) simp
  have 2: "filter (\<lambda>a. \<not> same_record S L a) (attendances (update_attendance d ?u))
            = filter (\<lambda>a. \<not> same_record S L a) (attendances d)"
    using wf existing ukey by (rule others_update) simp
  have 3: "students (update_attendance d ?u) = students d"
    "attendance_logs (update_attendance d ?u) = attendance_logs d"
    "classrooms (update_attendance d ?u) = classrooms d"
    by (simp_all add: update_attendance_def)
  show ?thesis
    unfolding eq using 1 2 3 by simp
qed
theorem record_attendance_merge_frame_witness:
  "wf_db (example_db [example_record (70 / 100)])
   \<and> find (same_record 1 1) (attendances (example_db [example_record (70 / 100)]))
        = Some (example_record (70 / 100))
   \<and> a_face_confidence (example_record (70 / 100)) < 95 / 100
   \<and> record_attendance (example_db [example_record (70 / 100)]) 1 1 ''late'' (95 / 100) False
        (Some ''b.jpg'') (Some 9) (Some ''camera 2'') 20
        = (Inr ((example_record (95 / 100))\<lparr>a_status := ''late'', a_updated_at := 20\<rparr>),
           example_db [(example_record (95 / 100))\<lparr>a_status := ''late'', a_updated_at := 20\<rparr>])
   \<and> a_notes ((example_record (95 / 100))\<lparr>a_status := ''late'', a_updated_at := 20\<rparr>)
        = Some ''camera 1''"
proof -
  have wf: "wf_db (example_db [example_record (70 / 100)])"
    by (simp add: wf_db_def example_defs)
  have ex: "find (same_record 1 1) (attendances (example_db [example_record (70 / 100)]))
              = Some (example_record (70 / 100))"
    by (simp add: example_defs same_record_def)
  have st: "find (\<lambda>s. s_id s = 1) (students (example_db [example_record (70 / 100)])) \<noteq> None"
    by (simp add: example_defs)
  have lg: "find (\<lambda>l. l_id l = 1) (attendance_logs (example_db [example_record (70 / 100)]))
              \<noteq> None"
    by (simp add: example_defs)
  have vs: "is_valid_attendance_status ''late''"
    by (simp add: store_defs)
  have lt: "a_face_confidence (example_record (70 / 100)) < 95 / 100"
    by (simp add: example_defs)
  from record_attendance_merge_frame[OF wf ex st lg vs lt, of False "Some ''b.jpg''" "Some 9"
         "Some ''camera 2''" 20]
  obtain r d' where call: "record_attendance (example_db [example_record (70 / 100)]) 1 1 ''late''
        (95 / 100) False (Some ''b.jpg'') (Some 9) (Some ''camera 2'') 20 = (Inr r, d')"
    and kept: "a_notes r = a_notes (example_record (70 / 100))"
    by auto
  have eval: "record_attendance (example_db [example_record (70 / 100)]) 1 1 ''late'' (95 / 100)
        False (Some ''b.jpg'') (Some 9) (Some ''camera 2'') 20
        = (Inr ((example_record (95 / 100))\<lparr>a_status := ''late'', a_updated_at := 20\<rparr>),
           example_db [(example_record (95 / 100))\<lparr>a_status := ''late'', a_updated_at := 20\<rparr>])"
    by (simp add: record_attendance_def example_defs store_defs)
  from call eval kept
  have "a_notes ((example_record (95 / 100))\<lparr>a_status := ''late'', a_updated_at := 20\<rparr>)
          = Some ''camera 1''"
    by (simp add: example_defs)
  with wf ex lt eval show ?thesis by simp
qed

subsection \<open>Creating or fetching a session\<close>

lemma find_append_None:
  "find P xs = None \<Longrightarrow> find P (xs @ ys) = find P ys"
  by (induction xs) (auto split: if_splits)

lemma find_None_filter: "find P xs = None \<Longrightarrow> filter P xs = []"
  by (induction xs) (auto split: if_splits)

lemma create_or_get_existing:
  assumes "find (\<lambda>c. c_id c = classroom_id) (classrooms d) \<noteq> None"
    and "is_valid_session_type session_type"
    and "find (same_session classroom_id session_date session_type) (attendance_logs d) = Some lg"
  shows "create_or_get_attendance_log d classroom_id session_date session_type start_time rb now
           = (Inr lg, d)"
  using assms by (auto simp: create_or_get_attendance_log_def)

lemma create_or_get_new:
  assumes "find (\<lambda>c. c_id c = classroom_id) (classrooms d) \<noteq> None"
    and "is_valid_session_type session_type"
    and "find (same_session classroom_id session_date session_type) (attendance_logs d) = None"
  shows "create_or_get_attendance_log d classroom_id session_date session_type start_time rb now
           = (Inr (new_log d classroom_id session_date session_type start_time rb now),
              d\<lparr>attendance_logs := attendance_logs d
                   @ [new_log d classroom_id session_date session_type start_time rb now]\<rparr>)"
  using assms
  by (auto simp: create_or_get_attendance_log_def insert_log_def new_log_def Let_def)

lemma same_session_new_log:
  "same_session c dt ty (new_log d c dt ty st rb now)"
  by (simp add: same_session_def new_log_def)

text \<open>
  Claim C3. For an existing classroom and a valid session type,
  \<^const>\<open>create_or_get_attendance_log\<close> returns a session \<open>l1\<close> for the key, and a second call
  with the same classroom, date and session type (whatever its other arguments) returns the
  same row and leaves the store as the first call left it. If a session for the key was stored
  already, it is the one returned and the store is unchanged. Otherwise exactly one row is added,
  it is the only session of the key, its primary key is new, it is not finalised, and its
  \<open>l_total_students\<close> is the number of active students of the classroom at that moment.
\<close>

theorem create_or_get_attendance_log_idempotent:
  assumes classroom: "find (\<lambda>c. c_id c = classroom_id) (classrooms d) \<noteq> None"
    and valid: "is_valid_session_type session_type"
  shows "\<exists>l1 d1.
           create_or_get_attendance_log d classroom_id session_date session_type start_time rb now
             = (Inr l1, d1)
         \<and> create_or_get_attendance_log d1 classroom_id session_date session_type start_time' rb' now'
             = (Inr l1, d1)
         \<and> same_session classroom_id session_date session_type l1
         \<and> (\<forall>lg. find (same_session classroom_id session_date session_type) (attendance_logs d)
                   = Some lg \<longrightarrow> l1 = lg \<and> d1 = d)
         \<and> (find (same_session classroom_id session_date session_type) (attendance_logs d) = None
              \<longrightarrow> attendance_logs d1 = attendance_logs d @ [l1]
                \<and> filter (same_session classroom_id session_date session_type) (attendance_logs d1)
                    = [l1]
                \<and> l_id l1 \<notin> set (map l_id (attendance_logs d))
                \<and> l_total_students l1
                    = int (length (filter (active_in classroom_id) (students d)))
                \<and> l_is_finalized l1 = False
                \<and> students d1 = students d \<and> attendances d1 = attendances d
                \<and> classrooms d1 = classrooms d)"
proof (cases "find (same_session classroom_id session_date session_type) (attendance_logs d)")
  case None
  let ?n = "new_log d classroom_id session_date session_type start_time rb now"
  let ?d1 = "d\<lparr>attendance_logs := attendance_logs d @ [?n]\<rparr>"
  have first: "create_or_get_attendance_log d classroom_id session_date session_type start_time rb now
                 = (Inr ?n, ?d1)"
    using classroom valid None by (rule create_or_get_new)
  have key: "same_session classroom_id session_date session_type ?n"
    by (rule same_session_new_log)
  have found: "find (same_session classroom_id session_date session_type) (attendance_logs ?d1)
                 = Some ?n"
    using None key by (simp add: find_append_None)
  have second: "create_or_get_attendance_log ?d1 classroom_id session_date session_type
                   start_time' rb' now' = (Inr ?n, ?d1)"
    using _ valid found by (rule create_or_get_existing) (use classroom in simp)
  have only: "filter (same_session classroom_id session_date session_type) (attendance_logs ?d1)
                = [?n]"
    using None key by (simp add: find_None_filter)
  have fresh: "l_id ?n \<notin> set (map l_id (attendance_logs d))"
    using next_id_fresh[of "map l_id (attendance_logs d)"] by (simp add: new_log_def)
  have fields: "l_total_students ?n = int (length (filter (active_in classroom_id) (students d)))"
    "l_is_finalized ?n = False"
    by (simp_all add: new_log_def)
  show ?thesis
    using first second key only fresh fields None by simp
next
  case (Some lg)
  have first: "create_or_get_attendance_log d classroom_id session_date session_type start_time rb now
                 = (Inr lg, d)"
    using classroom valid Some by (rule create_or_get_existing)
  have second: "create_or_get_attendance_log d classroom_id session_date session_type
                  start_time' rb' now' = (Inr lg, d)"
    using classroom valid Some by (rule create_or_get_existing)
  have key: "same_session classroom_id session_date session_type lg"
    using Some by (auto dest: find_Some_mem)
  show ?thesis
    using first second key Some by simp
qed

theorem create_or_get_attendance_log_idempotent_witness:
  "find (\<lambda>c. c_id c = 1) (classrooms (example_db [])) \<noteq> None
   \<and> is_valid_session_type ''afternoon''
   \<and> create_or_get_attendance_log (example_db []) 1 0 ''afternoon'' None (Some 7) 50
       = (Inr ((example_log 2 ''afternoon'')\<lparr>l_start_time := 50, l_total_students := 1,
                  l_recorded_by_id := Some 7\<rparr>),
          (example_db [])\<lparr>attendance_logs := [example_log 1 ''morning'',
             (example_log 2 ''afternoon'')\<lparr>l_start_time := 50, l_total_students := 1,
                  l_recorded_by_id := Some 7\<rparr>]\<rparr>)
   \<and> create_or_get_attendance_log
         ((example_db [])\<lparr>attendance_logs := [example_log 1 ''morning'',
             (example_log 2 ''afternoon'')\<lparr>l_start_time := 50, l_total_students := 1,
                  l_recorded_by_id := Some 7\<rparr>]\<rparr>) 1 0 ''afternoon'' (Some 60) None 70
       = (Inr ((example_log 2 ''afternoon'')\<lparr>l_start_time := 50, l_total_students := 1,
                  l_recorded_by_id := Some 7\<rparr>),
          (example_db [])\<lparr>attendance_logs := [example_log 1 ''morning'',
             (example_log 2 ''afternoon'')\<lparr>l_start_time := 50, l_total_students := 1,
                  l_recorded_by_id := Some 7\<rparr>]\<rparr>)"
proof -
  have c: "find (\<lambda>c. c_id c = 1) (classrooms (example_db [])) \<noteq> None"
    by (simp add: example_defs)
  have v: "is_valid_session_type ''afternoon''"
    by (simp add: store_defs)
  have first: "create_or_get_attendance_log (example_db []) 1 0 ''afternoon'' None (Some 7) 50
       = (Inr ((example_log 2 ''afternoon'')\<lparr>l_start_time := 50, l_total_students := 1,
                  l_recorded_by_id := Some 7\<rparr>),
          (example_db [])\<lparr>attendance_logs := [example_log 1 ''morning'',
             (example_log 2 ''afternoon'')\<lparr>l_start_time := 50, l_total_students := 1,
                  l_recorded_by_id := Some 7\<rparr>]\<rparr>)"
    by (simp add: create_or_get_attendance_log_def example_defs store_defs)
  from create_or_get_attendance_log_idempotent[OF c v, of 0 None "Some 7" 50 "Some 60" None 70] first
  have "create_or_get_attendance_log
         ((example_db [])\<lparr>attendance_logs := [example_log 1 ''morning'',
             (example_log 2 ''afternoon'')\<lparr>l_start_time := 50, l_total_students := 1,
                  l_recorded_by_id := Some 7\<rparr>]\<rparr>) 1 0 ''afternoon'' (Some 60) None 70
       = (Inr ((example_log 2 ''afternoon'')\<lparr>l_start_time := 50, l_total_students := 1,
                  l_recorded_by_id := Some 7\<rparr>),
          (example_db [])\<lparr>attendance_logs := [example_log 1 ''morning'',
             (example_log 2 ''afternoon'')\<lparr>l_start_time := 50, l_total_students := 1,
                  l_recorded_by_id := Some 7\<rparr>]\<rparr>)"
    by auto
  with c v first show ?thesis by simp
qed

subsection \<open>Finalising a session\<close>

lemma find_map_update:
  assumes "find P xs = Some y" and "P f" and "\<And>x. P x \<Longrightarrow> g x = f"
    and "\<And>x. \<not> P x \<Longrightarrow> \<not> P (g x)"
  shows "find P (map g xs) = Some f"
  using assms(1)
proof (induction xs)
  case Nil
  then show ?case by simp
next
  case (Cons x xs)
  show ?case
  proof (cases "P x")
    case True
    with assms(2,3) show ?thesis by simp
  next
    case False
    with Cons assms(4) show ?thesis by simp
  qed
qed

lemma find_update_log:
  assumes "find (\<lambda>l. l_id l = i) (attendance_logs d) = Some lg" and "l_id f = i"
  shows "find (\<lambda>l. l_id l = i) (attendance_logs (update_log d f)) = Some f"
  unfolding update_log_def
  using assms by (simp, intro find_map_update[where y = lg]) auto

text \<open>
  Claim C4. For a stored session, \<^const>\<open>finalize_attendance_log\<close> returns and stores a row
  whose \<open>l_total_students\<close> is the number of students that are active in the session's classroom
  now (the stored snapshot plays no part), whose four counts are the numbers of the session's
  records with that status, whose finalised flag is set and whose end time is the time of the
  call. Its attendance rate is \<open>present / total * 100\<close>, and \<open>0\<close> when the total is \<open>0\<close>.
\<close>

theorem finalize_attendance_log_recomputes:
  assumes found: "find (\<lambda>l. l_id l = attendance_log_id) (attendance_logs d) = Some lg"
  shows "\<exists>f. finalize_attendance_log d attendance_log_id now = (Inr f, update_log d f)
       \<and> find (\<lambda>l. l_id l = attendance_log_id) (attendance_logs (update_log d f)) = Some f
       \<and> l_total_students f = int (length (filter (active_in (l_classroom_id lg)) (students d)))
       \<and> l_present_count f = count_status ''present''
            (filter (\<lambda>a. a_attendance_log_id a = attendance_log_id) (attendances d))
       \<and> l_absent_count f = count_status ''absent''
            (filter (\<lambda>a. a_attendance_log_id a = attendance_log_id) (attendances d))
       \<and> l_late_count f = count_status ''late''
            (filter (\<lambda>a. a_attendance_log_id a = attendance_log_id) (attendances d))
       \<and> l_excused_count f = count_status ''excused''
            (filter (\<lambda>a. a_attendance_log_id a = attendance_log_id) (attendances d))
       \<and> l_is_finalized f = True \<and> l_end_time f = Some now
       \<and> get_attendance_rate f =
            (if l_total_students f = 0 then 0
             else real_of_int (l_present_count f) / real_of_int (l_total_students f) * 100)
       \<and> (l_total_students f = 0 \<longrightarrow> get_attendance_rate f = 0)
       \<and> l_id f = attendance_log_id \<and> l_classroom_id f = l_classroom_id lg
       \<and> l_session_date f = l_session_date lg \<and> l_session_type f = l_session_type lg
       \<and> l_start_time f = l_start_time lg"
proof -
  from found have id: "l_id lg = attendance_log_id"
    by (auto dest: find_Some_mem)
  let ?n = "int (length (filter (active_in (l_classroom_id lg)) (students d)))"
  let ?f = "(calculate_statistics d (lg\<lparr>l_total_students := ?n\<rparr>))
              \<lparr>l_is_finalized := True, l_end_time := Some now\<rparr>"
  have call: "finalize_attendance_log d attendance_log_id now = (Inr ?f, update_log d ?f)"
    using found by (simp add: finalize_attendance_log_def Let_def)
  have fid: "l_id ?f = attendance_log_id"
    using id by (simp add: calculate_statistics_def Let_def)
  have stored: "find (\<lambda>l. l_id l = attendance_log_id) (attendance_logs (update_log d ?f)) = Some ?f"
    using found fid by (rule find_update_log)
  have total: "l_total_students ?f = ?n"
    by (simp add: calculate_statistics_def Let_def)
  have counts: "l_present_count ?f = count_status ''present''
            (filter (\<lambda>a. a_attendance_log_id a = attendance_log_id) (attendances d))"
    "l_absent_count ?f = count_status ''absent''
            (filter (\<lambda>a. a_attendance_log_id a = attendance_log_id) (attendances d))"
    "l_late_count ?f = count_status ''late''
            (filter (\<lambda>a. a_attendance_log_id a = attendance_log_id) (attendances d))"
    "l_excused_count ?f = count_status ''excused''
            (filter (\<lambda>a. a_attendance_log_id a = attendance_log_id) (attendances d))"
    using id by (simp_all add: calculate_statistics_def Let_def)
  have flags: "l_is_finalized ?f = True" "l_end_time ?f = Some now"
    by simp_all
  have rate: "get_attendance_rate ?f =
            (if l_total_students ?f = 0 then 0
             else real_of_int (l_present_count ?f) / real_of_int (l_total_students ?f) * 100)"
     "l_total_students ?f = 0 \<longrightarrow> get_attendance_rate ?f = 0"
    by (simp_all add: get_attendance_rate_def)
  have frame: "l_classroom_id ?f = l_classroom_id lg" "l_session_date ?f = l_session_date lg"
    "l_session_type ?f = l_session_type lg" "l_start_time ?f = l_start_time lg"
    by (simp_all add: calculate_statistics_def Let_def)
  show ?thesis
    apply (rule exI[where x = ?f])
    using call stored total counts flags rate fid frame by blast
qed

lemmas example_defs2 = example_defs example_store_def example_record_of_def
  example_finalize_db_def

theorem finalize_attendance_log_recomputes_witness:
  "find (\<lambda>l. l_id l = 1) (attendance_logs example_finalize_db)
     = Some ((example_log 1 ''morning'')\<lparr>l_total_students := 5\<rparr>)
   \<and> fst (finalize_attendance_log example_finalize_db 1 99)
     = Inr ((example_log 1 ''morning'')\<lparr>l_total_students := 2, l_present_count := 1,
              l_absent_count := 1, l_is_finalized := True, l_end_time := Some 99\<rparr>)
   \<and> get_attendance_rate ((example_log 1 ''morning'')\<lparr>l_total_students := 2,
              l_present_count := 1, l_absent_count := 1, l_is_finalized := True,
              l_end_time := Some 99\<rparr>) = 50"
proof -
  have found: "find (\<lambda>l. l_id l = 1) (attendance_logs example_finalize_db)
     = Some ((example_log 1 ''morning'')\<lparr>l_total_students := 5\<rparr>)"
    by (simp add: example_defs2)
  from finalize_attendance_log_recomputes[OF found, of 99]
  obtain f where call: "finalize_attendance_log example_finalize_db 1 99
                          = (Inr f, update_log example_finalize_db f)"
    and rate: "get_attendance_rate f =
            (if l_total_students f = 0 then 0
             else real_of_int (l_present_count f) / real_of_int (l_total_students f) * 100)"
    by blast
  have eval: "fst (finalize_attendance_log example_finalize_db 1 99)
     = Inr ((example_log 1 ''morning'')\<lparr>l_total_students := 2, l_present_count := 1,
              l_absent_count := 1, l_is_finalized := True, l_end_time := Some 99\<rparr>)"
    by (simp add: finalize_attendance_log_def calculate_statistics_def count_status_def
          example_defs2 store_defs)
  with call have f: "f = (example_log 1 ''morning'')\<lparr>l_total_students := 2,
              l_present_count := 1, l_absent_count := 1, l_is_finalized := True,
              l_end_time := Some 99\<rparr>"
    by simp
  from rate have "get_attendance_rate ((example_log 1 ''morning'')\<lparr>l_total_students := 2,
              l_present_count := 1, l_absent_count := 1, l_is_finalized := True,
              l_end_time := Some 99\<rparr>) = 50"
    unfolding f by simp
  with found eval show ?thesis by simp
qed

subsection \<open>Marking unrecorded students absent\<close>

lemma insert_absent_row:
  "insert_attendance w (absent_row student_id attendance_log_id now)
     = Inl (IntegrityError ''attendances.classroom_id'')"
  by (simp add: insert_attendance_def absent_row_def)

lemma mark_absent_loop_eq:
  "mark_absent_loop w log_id now sts m =
     (if list_all (\<lambda>st. find (same_record (s_id st) log_id) (attendances w) \<noteq> None) sts
      then Inr (m, w) else Inl (IntegrityError ''attendances.classroom_id''))"
  by (induction sts arbitrary: m) (auto simp: insert_absent_row split: option.splits)

lemma create_or_get_frame:
  "attendances (snd (create_or_get_attendance_log d c dt ty st rb now)) = attendances d
   \<and> students (snd (create_or_get_attendance_log d c dt ty st rb now)) = students d
   \<and> classrooms (snd (create_or_get_attendance_log d c dt ty st rb now)) = classrooms d
   \<and> (\<exists>extra. attendance_logs (snd (create_or_get_attendance_log d c dt ty st rb now))
         = attendance_logs d @ extra)"
  by (auto simp: create_or_get_attendance_log_def insert_log_def Let_def split: option.splits)

lemma create_or_get_stored:
  assumes "find (same_session c dt ty) (attendance_logs d) \<noteq> None"
  shows "snd (create_or_get_attendance_log d c dt ty st rb now) = d"
  using assms by (auto simp: create_or_get_attendance_log_def split: option.splits)

text \<open>
  The table of records is the same after \<^const>\<open>mark_absent_unrecorded\<close> as before it,
  whatever the call returns: a row without a classroom is never stored.
\<close>

lemma mark_absent_unrecorded_frame:
  "attendances (snd (mark_absent_unrecorded d c dt ty now)) = attendances d
   \<and> students (snd (mark_absent_unrecorded d c dt ty now)) = students d
   \<and> classrooms (snd (mark_absent_unrecorded d c dt ty now)) = classrooms d
   \<and> (\<exists>extra. attendance_logs (snd (mark_absent_unrecorded d c dt ty now))
         = attendance_logs d @ extra)"
proof (cases "find (\<lambda>x. c_id x = c) (classrooms d)")
  case None
  then show ?thesis by (simp add: mark_absent_unrecorded_def)
next
  case (Some a)
  obtain r d1 where cg: "create_or_get_attendance_log d c dt ty None None now = (r, d1)"
    by (cases "create_or_get_attendance_log d c dt ty None None now")
  from create_or_get_frame[of d c dt ty None None now] cg
  have fr: "attendances d1 = attendances d" "students d1 = students d"
    "classrooms d1 = classrooms d" "\<exists>extra. attendance_logs d1 = attendance_logs d @ extra"
    by simp_all
  have "snd (mark_absent_unrecorded d c dt ty now) = d1"
    using Some cg by (cases r) (simp_all add: mark_absent_unrecorded_def mark_absent_loop_eq)
  with fr show ?thesis by simp
qed

lemma mark_absent_unrecorded_stored:
  assumes "find (same_session c dt ty) (attendance_logs d) \<noteq> None"
  shows "snd (mark_absent_unrecorded d c dt ty now) = d"
proof (cases "find (\<lambda>x. c_id x = c) (classrooms d)")
  case None
  then show ?thesis by (simp add: mark_absent_unrecorded_def)
next
  case (Some a)
  obtain r d1 where cg: "create_or_get_attendance_log d c dt ty None None now = (r, d1)"
    by (cases "create_or_get_attendance_log d c dt ty None None now")
  with create_or_get_stored[OF assms, of None None now] have "d1 = d" by simp
  moreover have "snd (mark_absent_unrecorded d c dt ty now) = d1"
    using Some cg by (cases r) (simp_all add: mark_absent_unrecorded_def mark_absent_loop_eq)
  ultimately show ?thesis by simp
qed

lemma mark_absent_unrecorded_success:
  assumes "mark_absent_unrecorded d c dt ty now = (Inr n, d1)"
  shows "n = 0"
  using assms
  by (auto simp: mark_absent_unrecorded_def mark_absent_loop_eq
           split: option.splits prod.splits sum.splits if_splits)

lemma create_or_get_leaves_session:
  assumes "fst (create_or_get_attendance_log d c dt ty st rb now) = Inr l"
  shows "find (same_session c dt ty)
           (attendance_logs (snd (create_or_get_attendance_log d c dt ty st rb now))) \<noteq> None"
  using assms
  by (auto simp: create_or_get_attendance_log_def insert_log_def Let_def find_append_None
        same_session_def split: option.splits if_splits)

lemma mark_absent_unrecorded_rerun:
  "snd (mark_absent_unrecorded (snd (mark_absent_unrecorded d c dt ty now)) c dt ty now')
     = snd (mark_absent_unrecorded d c dt ty now)"
proof (cases "find (\<lambda>x. c_id x = c) (classrooms d)")
  case None
  then show ?thesis by (simp add: mark_absent_unrecorded_def)
next
  case (Some a)
  obtain r d1 where cg: "create_or_get_attendance_log d c dt ty None None now = (r, d1)"
    by (cases "create_or_get_attendance_log d c dt ty None None now")
  have first: "snd (mark_absent_unrecorded d c dt ty now) = d1"
    using Some cg by (cases r) (simp_all add: mark_absent_unrecorded_def mark_absent_loop_eq)
  show ?thesis
  proof (cases r)
    case (Inl e)
    with cg Some have "d1 = d" and "\<not> is_valid_session_type ty"
      by (auto simp: create_or_get_attendance_log_def insert_log_def Let_def
            split: option.splits if_splits)
    with first Some show ?thesis
      by (simp add: mark_absent_unrecorded_def create_or_get_attendance_log_def)
  next
    case (Inr l)
    with cg create_or_get_leaves_session[of d c dt ty None None now l]
    have "find (same_session c dt ty) (attendance_logs d1) \<noteq> None" by simp
    then have "snd (mark_absent_unrecorded d1 c dt ty now') = d1"
      by (rule mark_absent_unrecorded_stored)
    with first show ?thesis by simp
  qed
qed

lemmas example_defs3 = example_defs2 example_sweep_db_def example_blocked_db_def

lemmas sweep_defs = mark_absent_unrecorded_def create_or_get_attendance_log_def
  finalize_attendance_log_def calculate_statistics_def count_status_def mark_absent_loop_eq
  old_logs_def auto_mark_absent_after_deadline_def AUTO_MARK_ABSENT_HOURS_def

text \<open>
  Claim C7. The sweep is meant to insert an absent record, with its fixed note, for every active
  student of the classroom that has no record of the session, after which a second run has
  nothing left to insert. On a store with one active student and no record of the session the
  call raises \<^verbatim>\<open>IntegrityError\<close> instead and leaves the store as it was: the row it builds has
  no \<^verbatim>\<open>classroom_id\<close>, a column declared \<^verbatim>\<open>nullable=False\<close>, whereas \<^const>\<open>record_attendance\<close>
  passes the classroom of the session. The second half of the claim holds all the same
  (\<open>mark_absent_unrecorded_rerun\<close>).
\<close>

theorem mark_absent_unrecorded_integrity_error:
  "mark_absent_unrecorded (example_db []) 1 0 ''morning'' 100
     = (Inl (IntegrityError ''attendances.classroom_id''), example_db [])"
  by (simp add: sweep_defs example_defs3 store_defs)

subsection \<open>The sweep over the stale sessions\<close>

lemma sweep_loop_append:
  "sweep_loop d now earlier m = (Inr m', d')
     \<Longrightarrow> sweep_loop d now (earlier @ later) m = sweep_loop d' now later m'"
proof (induction earlier arbitrary: d m)
  case Nil
  then show ?case by simp
next
  case (Cons l ls)
  then show ?case
    by (auto split: prod.splits sum.splits)
qed

lemma finalize_frame:
  "attendances (snd (finalize_attendance_log d i now)) = attendances d"
  by (simp add: finalize_attendance_log_def update_log_def Let_def split: option.splits)

lemma finalize_error:
  "fst (finalize_attendance_log d i now) = Inl e \<Longrightarrow> snd (finalize_attendance_log d i now) = d"
  by (simp add: finalize_attendance_log_def Let_def split: option.splits)

lemma sweep_loop_single_error:
  assumes "fst (sweep_loop d now [l] m) = Inl e"
  shows "sweep_loop d now (l # rest) m = (Inl e, snd (sweep_loop d now [l] m))
       \<and> attendances (snd (sweep_loop d now [l] m)) = attendances d
       \<and> (\<exists>extra. attendance_logs (snd (sweep_loop d now [l] m)) = attendance_logs d @ extra)"
proof -
  obtain r d1 where mk: "mark_absent_unrecorded d (l_classroom_id l) (l_session_date l)
                           (l_session_type l) now = (r, d1)"
    by (cases "mark_absent_unrecorded d (l_classroom_id l) (l_session_date l)
                           (l_session_type l) now")
  from mark_absent_unrecorded_frame[of d "l_classroom_id l" "l_session_date l" "l_session_type l" now] mk
  have fr: "attendances d1 = attendances d" "\<exists>extra. attendance_logs d1 = attendance_logs d @ extra"
    by simp_all
  show ?thesis
  proof (cases r)
    case (Inl e')
    with mk assms fr show ?thesis by simp
  next
    case (Inr n)
    obtain r2 d2 where fin: "finalize_attendance_log d1 (l_id l) now = (r2, d2)"
      by (cases "finalize_attendance_log d1 (l_id l) now")
    with Inr mk assms have r2: "r2 = Inl e"
      by (cases r2) simp_all
    with fin finalize_error[of d1 "l_id l" now e] have "d2 = d1" by simp
    with Inr mk fin r2 fr show ?thesis by simp
  qed
qed

text \<open>
  Claim C9 as stated fails. Two stale, open sessions: the first belongs to a classroom that is not
  in the store, the second is fully recorded and would be finalised by the sweep on its own.
  The run raises the error of the first session and returns the store untouched, the second
  session still open.
\<close>

theorem sweep_blocked_by_first_error:
  "old_logs example_sweep_db 28801
     = [(example_log 1 ''morning'')\<lparr>l_classroom_id := 9\<rparr>, example_log 2 ''morning'']
   \<and> auto_mark_absent_after_deadline example_sweep_db 28801
     = (Inl (KeyError ''CLASSROOM_NOT_FOUND''), example_sweep_db)
   \<and> sweep_loop example_sweep_db 28801 [example_log 2 ''morning''] 0
     = (Inr 0,
        example_sweep_db\<lparr>attendance_logs :=
          [(example_log 1 ''morning'')\<lparr>l_classroom_id := 9\<rparr>,
           (example_log 2 ''morning'')\<lparr>l_total_students := 1, l_present_count := 1,
              l_is_finalized := True, l_end_time := Some 28801\<rparr>]\<rparr>)"
  by (simp add: sweep_defs example_defs3 store_defs)

text \<open>
  Claim C9, amended. An error raised while one session is processed is raised again by the
  sweep, and the run ends there: if the sessions before it went through, leaving the store
  \<open>d'\<close>, and the session \<open>l\<close> fails on \<open>d'\<close>, then the run over the whole batch returns that
  error and the store that the failed step left, whatever sessions follow \<open>l\<close>. That store has
  the records of \<open>d'\<close> and every session row of \<open>d'\<close> as it was, so the sessions after \<open>l\<close> are
  not processed, and those before it stay processed.
\<close>

theorem sweep_loop_stops_at_first_error:
  assumes earlier: "sweep_loop d now earlier m = (Inr m', d')"
    and fails: "fst (sweep_loop d' now [l] m') = Inl e"
  shows "sweep_loop d now (earlier @ l # rest) m = (Inl e, snd (sweep_loop d' now [l] m'))
       \<and> attendances (snd (sweep_loop d' now [l] m')) = attendances d'
       \<and> (\<exists>extra. attendance_logs (snd (sweep_loop d' now [l] m')) = attendance_logs d' @ extra)"
  using sweep_loop_append[OF earlier, of "l # rest"] sweep_loop_single_error[OF fails, of rest]
  by simp

theorem sweep_loop_stops_at_first_error_witness:
  "sweep_loop (example_blocked_db False) 28801 [example_log 1 ''morning''] 0
     = (Inr 0, example_blocked_db True)
   \<and> fst (sweep_loop (example_blocked_db True) 28801 [example_log 2 ''afternoon''] 0)
     = Inl (IntegrityError ''attendances.classroom_id'')
   \<and> sweep_loop (example_blocked_db False) 28801
       ([example_log 1 ''morning''] @ example_log 2 ''afternoon''
          # [(example_log 3 ''morning'')\<lparr>l_session_date := 1\<rparr>]) 0
     = (Inl (IntegrityError ''attendances.classroom_id''), example_blocked_db True)"
proof -
  have earlier: "sweep_loop (example_blocked_db False) 28801 [example_log 1 ''morning''] 0
     = (Inr 0, example_blocked_db True)"
    by (simp add: sweep_defs example_defs3 store_defs)
  have step: "sweep_loop (example_blocked_db True) 28801 [example_log 2 ''afternoon''] 0
     = (Inl (IntegrityError ''attendances.classroom_id''), example_blocked_db True)"
    by (simp add: sweep_defs example_defs3 store_defs)
  then have fails: "fst (sweep_loop (example_blocked_db True) 28801 [example_log 2 ''afternoon''] 0)
     = Inl (IntegrityError ''attendances.classroom_id'')"
    by simp
  from sweep_loop_stops_at_first_error[OF earlier fails,
         of "[(example_log 3 ''morning'')\<lparr>l_session_date := 1\<rparr>]"] step
  have "sweep_loop (example_blocked_db False) 28801
       ([example_log 1 ''morning''] @ example_log 2 ''afternoon''
          # [(example_log 3 ''morning'')\<lparr>l_session_date := 1\<rparr>]) 0
     = (Inl (IntegrityError ''attendances.classroom_id''), example_blocked_db True)"
    by simp
  with earlier fails show ?thesis by simp
qed

subsection \<open>Matching a face against the gallery\<close>

lemma argmin_less: "xs \<noteq> [] \<Longrightarrow> argmin xs < length xs"
  by (induction xs rule: argmin.induct) (auto simp: Let_def)

lemma argmin_least: "j < length xs \<Longrightarrow> xs ! argmin xs \<le> xs ! j"
proof (induction xs arbitrary: j rule: argmin.induct)
  case 1
  then show ?case by simp
next
  case (2 x)
  then show ?case by simp
next
  case (3 x y ys)
  let ?i = "argmin (y # ys)"
  show ?case
  proof (cases j)
    case 0
    then show ?thesis by (auto simp: Let_def)
  next
    case (Suc k)
    with "3.prems" have "k < length (y # ys)" by simp
    then have "(y # ys) ! ?i \<le> (y # ys) ! k" by (rule "3.IH")
    with Suc show ?thesis by (auto simp: Let_def)
  qed
qed

lemma argmin_first: "j < argmin xs \<Longrightarrow> xs ! argmin xs < xs ! j"
proof (induction xs arbitrary: j rule: argmin.induct)
  case 1
  then show ?case by simp
next
  case (2 x)
  then show ?case by simp
next
  case (3 x y ys)
  let ?i = "argmin (y # ys)"
  from "3.prems" have not_le: "\<not> x \<le> (y # ys) ! ?i" and j: "j < Suc ?i"
    by (auto simp: Let_def split: if_splits)
  show ?case
  proof (cases j)
    case 0
    with not_le show ?thesis by (simp add: Let_def)
  next
    case (Suc k)
    with j have "k < ?i" by simp
    then have "(y # ys) ! ?i < (y # ys) ! k" by (rule "3.IH")
    with Suc not_le show ?thesis by (simp add: Let_def)
  qed
qed

lemma recognize_face_loaded:
  assumes "model_loaded self" and "known_encodings self \<noteq> []"
    and "length (known_names self) = length (known_encodings self)"
  shows "recognize_face self distance e =
           (let i = argmin (face_distance distance (known_encodings self) e);
                confidence = 1 - distance (known_encodings self ! i) e
            in Inr (if confidence \<ge> confidence_threshold self
                    then Some (known_names self ! i) else None, confidence))"
proof -
  have "argmin (face_distance distance (known_encodings self) e) < length (known_encodings self)"
    using argmin_less[of "face_distance distance (known_encodings self) e"] assms(2)
    by (simp add: face_distance_def)
  then show ?thesis
    using assms by (simp add: recognize_face_def Let_def face_distance_def)
qed

lemma recognize_each_loaded:
  assumes "model_loaded self" and "known_encodings self \<noteq> []"
    and "length (known_names self) = length (known_encodings self)"
  shows "recognize_each self distance img = Inr (map (labelled self distance) img)"
proof (induction img)
  case Nil
  then show ?case by simp
next
  case (Cons face rest)
  obtain location encoding where face: "face = (location, encoding)" by (cases face)
  show ?case
    unfolding face using Cons recognize_face_loaded[OF assms, of distance encoding]
    by (simp add: Let_def labelled_def)
qed

lemmas matcher_defs = recognize_face_def recognize_faces_in_image_def detect_faces_def
  face_distance_def labelled_def example_distance_def example_detector_def FaceDetector_def
  Let_def

text \<open>
  Claim C2. The confidence is to lie in \<open>[0, 1]\<close>, as the comment above the computation says
  (``convert distance to confidence (0 to 1)'') and as the validator of the attendance service
  requires. The code returns \<open>1 - distance\<close> as it is: the nearest entry of the example gallery
  is at distance \<open>6\<close> from the query \<open>10\<close>, and the confidence returned is \<open>- 5\<close>, where
  the clamped value is \<open>0\<close>.
\<close>

theorem recognize_face_unclamped:
  "recognize_face example_detector example_distance 10 = Inr (None, - 5)
   \<and> recognize_faces_in_image example_detector example_distance [(0 :: nat, 10)]
       = Inr [\<lparr>r_location = 0, r_name = ''Unknown'', r_confidence = - 5\<rparr>]"
  by (simp add: matcher_defs)

text \<open>
  What the matcher does otherwise. For a loaded detector with a non-empty gallery whose two
  lists have the same length, it picks the first entry at least distance (no entry is nearer,
  every earlier entry is strictly farther), computes the confidence \<open>1 - distance\<close>, and
  returns the entry's label when the confidence is at least the threshold;
  \<^const>\<open>recognize_faces_in_image\<close> turns a missing label, and an empty one, into
  \<open>''Unknown''\<close>. The confidence is at most \<open>1\<close> when the distance is not negative, and it is
  \<open>1\<close> for a query that is in the gallery and at distance \<open>0\<close> from itself.
\<close>

theorem recognize_face_nearest:
  fixes self :: "'e face_detector" and loc :: 'loc and img :: "('loc \<times> 'e) list"
  assumes loaded: "model_loaded self"
    and nonempty: "known_encodings self \<noteq> []"
    and aligned: "length (known_names self) = length (known_encodings self)"
    and best: "i = argmin (face_distance distance (known_encodings self) e)"
    and conf: "c = 1 - distance (known_encodings self ! i) e"
  shows "i < length (known_encodings self)
       \<and> (\<forall>j < length (known_encodings self).
             distance (known_encodings self ! i) e \<le> distance (known_encodings self ! j) e)
       \<and> (\<forall>j < i. distance (known_encodings self ! i) e < distance (known_encodings self ! j) e)
       \<and> recognize_face self distance e
           = Inr (if c \<ge> confidence_threshold self then Some (known_names self ! i) else None, c)
       \<and> recognize_faces_in_image self distance [(loc, e)]
           = Inr [\<lparr>r_location = loc,
                   r_name = (if c \<ge> confidence_threshold self \<and> known_names self ! i \<noteq> []
                             then known_names self ! i else ''Unknown''),
                   r_confidence = c\<rparr>]
       \<and> recognize_faces_in_image self distance img = Inr (map (labelled self distance) img)
       \<and> (0 \<le> distance (known_encodings self ! i) e \<longrightarrow> c \<le> 1)
       \<and> (e \<in> set (known_encodings self) \<and> distance e e = 0
            \<and> 0 \<le> distance (known_encodings self ! i) e \<longrightarrow> c = 1)"
proof -
  let ?ds = "face_distance distance (known_encodings self) e"
  have len: "length ?ds = length (known_encodings self)"
    by (simp add: face_distance_def)
  have i: "i < length (known_encodings self)"
    using argmin_less[of ?ds] nonempty best len by (simp add: face_distance_def)
  have nth: "?ds ! j = distance (known_encodings self ! j) e" if "j < length (known_encodings self)" for j
    using that by (simp add: face_distance_def)
  have least: "distance (known_encodings self ! i) e \<le> distance (known_encodings self ! j) e"
    if "j < length (known_encodings self)" for j
    using argmin_least[of j ?ds] that len nth[OF that] nth[OF i] best by simp
  have first: "distance (known_encodings self ! i) e < distance (known_encodings self ! j) e"
    if "j < i" for j
  proof -
    from that i have j: "j < length (known_encodings self)" by simp
    from that best have "?ds ! argmin ?ds < ?ds ! j" by (intro argmin_first) simp
    with nth[OF j] nth[OF i] best show ?thesis by simp
  qed
  have face: "recognize_face self distance e
           = Inr (if c \<ge> confidence_threshold self then Some (known_names self ! i) else None, c)"
    using recognize_face_loaded[OF loaded nonempty aligned, of distance e] best conf
    by (simp add: Let_def)
  have all: "recognize_faces_in_image self distance img' = Inr (map (labelled self distance) img')"
    for img' :: "('loc \<times> 'e) list"
    using recognize_each_loaded[OF loaded nonempty aligned, of distance img'] loaded
    by (simp add: recognize_faces_in_image_def detect_faces_def zip_map_fst_snd)
  have one: "recognize_faces_in_image self distance [(loc, e)]
           = Inr [\<lparr>r_location = loc,
                   r_name = (if c \<ge> confidence_threshold self \<and> known_names self ! i \<noteq> []
                             then known_names self ! i else ''Unknown''),
                   r_confidence = c\<rparr>]"
    using all[of "[(loc, e)]"] best conf by (simp add: labelled_def Let_def)
  have le1: "0 \<le> distance (known_encodings self ! i) e \<longrightarrow> c \<le> 1"
    using conf by simp
  have self1: "e \<in> set (known_encodings self) \<and> distance e e = 0
            \<and> 0 \<le> distance (known_encodings self ! i) e \<longrightarrow> c = 1"
  proof (intro impI, elim conjE)
    assume mem: "e \<in> set (known_encodings self)" and zero: "distance e e = 0"
      and nonneg: "0 \<le> distance (known_encodings self ! i) e"
    from mem obtain j where j: "j < length (known_encodings self)" "known_encodings self ! j = e"
      by (auto simp: in_set_conv_nth)
    from least[OF j(1)] j(2) zero have "distance (known_encodings self ! i) e \<le> 0" by simp
    with nonneg conf show "c = 1" by simp
  qed
  from i least first face one all[of img] le1 self1 show ?thesis by blast
qed

theorem recognize_face_nearest_witness:
  "model_loaded example_detector \<and> known_encodings example_detector \<noteq> []
   \<and> length (known_names example_detector) = length (known_encodings example_detector)
   \<and> argmin (face_distance example_distance (known_encodings example_detector) (1 / 10)) = 0
   \<and> recognize_face example_detector example_distance (1 / 10) = Inr (Some ''An'', 9 / 10)
   \<and> recognize_face example_detector example_distance 0 = Inr (Some ''An'', 1)
   \<and> recognize_faces_in_image example_detector example_distance [(7 :: nat, 1 / 10)]
       = Inr [\<lparr>r_location = 7, r_name = ''An'', r_confidence = 9 / 10\<rparr>]"
proof -
  have l: "model_loaded example_detector" and n: "known_encodings example_detector \<noteq> []"
    and a: "length (known_names example_detector) = length (known_encodings example_detector)"
    by (simp_all add: example_detector_def)
  have b: "0 = argmin (face_distance example_distance (known_encodings example_detector) (1 / 10))"
    by (simp add: matcher_defs)
  have c: "9 / 10 = 1 - example_distance (known_encodings example_detector ! 0) (1 / 10)"
    by (simp add: matcher_defs)
  have b0: "0 = argmin (face_distance example_distance (known_encodings example_detector) 0)"
    by (simp add: matcher_defs)
  have c0: "1 = 1 - example_distance (known_encodings example_detector ! 0) 0"
    by (simp add: matcher_defs)
  have t: "confidence_threshold example_detector = 6 / 10"
    and nm: "known_names example_detector ! 0 = ''An''"
    by (simp_all add: example_detector_def)
  from recognize_face_nearest[OF l n a b c, of "7 :: nat" "[]"]
  have 1: "recognize_face example_detector example_distance (1 / 10) = Inr (Some ''An'', 9 / 10)"
    and 2: "recognize_faces_in_image example_detector example_distance [(7 :: nat, 1 / 10)]
       = Inr [\<lparr>r_location = 7, r_name = ''An'', r_confidence = 9 / 10\<rparr>]"
    by (simp_all add: t nm)
  from recognize_face_nearest[OF l n a b0 c0, of "7 :: nat" "[]"]
  have 3: "recognize_face example_detector example_distance 0 = Inr (Some ''An'', 1)"
    by (simp add: t nm)
  from l n a b 1 2 3 show ?thesis by simp
qed

subsection \<open>Recognition without a gallery\<close>

lemma get_detector_no_gallery:
  assumes "no_gallery svc model_file"
  shows "\<not> model_loaded (fst (get_detector svc model_file))
       \<and> detector (snd (get_detector svc model_file)) = Some (fst (get_detector svc model_file))"
  using assms
  by (auto simp: no_gallery_def get_detector_def init_detector_def load_model_def
        FaceDetector_def Let_def split: option.splits prod.splits if_splits)

text \<open>
  Claim C8 as stated fails for the detector: with no gallery loaded,
  \<^const>\<open>recognize_faces_in_image\<close> returns the empty list for an image with a face, which is the
  value a loaded detector returns for an image without faces.
\<close>

theorem recognize_faces_in_image_not_loaded_silent:
  "recognize_faces_in_image (FaceDetector (6 / 10) :: real face_detector) example_distance
       [(0 :: nat, 0)] = Inr []
   \<and> recognize_faces_in_image example_detector example_distance ([] :: (nat \<times> real) list)
       = Inr []"
  by (simp add: matcher_defs)

text \<open>
  Claim C8, amended. With no gallery loaded, \<^const>\<open>recognize_student_face\<close> refuses with
  \<open>Model_not_loaded\<close> before any detection, and the service is left with a detector that is not
  loaded, so that the next call refuses as well, whatever model file exists by then; the
  function has no access to the training and writes no model file. The detector underneath
  returns the empty list for every image.
\<close>

theorem recognize_student_face_not_loaded:
  fixes svc :: "'e face_service" and img :: "('loc \<times> 'e) list"
  assumes "no_gallery svc model_file"
  shows "fst (recognize_student_face svc model_file distance d img classroom_id)
           = Inr (Inl Model_not_loaded)
       \<and> no_gallery (snd (recognize_student_face svc model_file distance d img classroom_id))
           later_file
       \<and> recognize_faces_in_image (fst (get_detector svc model_file)) distance img = Inr []"
proof -
  obtain det svc' where g: "get_detector svc model_file = (det, svc')"
    by (cases "get_detector svc model_file")
  with get_detector_no_gallery[OF assms]
  have nl: "\<not> model_loaded det" and st: "detector svc' = Some det"
    by simp_all
  have call: "recognize_student_face svc model_file distance d img classroom_id
                = (Inr (Inl Model_not_loaded), svc')"
    using g nl by (simp add: recognize_student_face_def)
  have "no_gallery svc' later_file"
    using st nl by (simp add: no_gallery_def)
  moreover have "recognize_faces_in_image det distance img = Inr []"
    using nl by (simp add: recognize_faces_in_image_def detect_faces_def)
  ultimately show ?thesis
    using call g by simp
qed

theorem recognize_student_face_not_loaded_witness:
  "no_gallery example_service None
   \<and> recognize_student_face example_service None example_distance (example_db [])
        [(0 :: nat, 0)] None
       = (Inr (Inl Model_not_loaded),
          \<lparr>detector = Some (FaceDetector DEFAULT_FACE_CONFIDENCE), model_trained = False\<rparr>)
   \<and> no_gallery \<lparr>detector = Some (FaceDetector DEFAULT_FACE_CONFIDENCE :: real face_detector),
         model_trained = False\<rparr> (Some ([0], [''An'']))"
proof -
  have h: "no_gallery example_service None"
    by (simp add: no_gallery_def example_service_def)
  have eval: "recognize_student_face example_service None example_distance (example_db [])
        [(0 :: nat, 0)] None
       = (Inr (Inl Model_not_loaded),
          \<lparr>detector = Some (FaceDetector DEFAULT_FACE_CONFIDENCE), model_trained = False\<rparr>)"
    by (simp add: recognize_student_face_def get_detector_def init_detector_def load_model_def
          example_service_def FaceDetector_def)
  from recognize_student_face_not_loaded[OF h, of example_distance "example_db []"
         "[(0 :: nat, 0)]" None "Some ([0], [''An''])"] eval
  have "no_gallery \<lparr>detector = Some (FaceDetector DEFAULT_FACE_CONFIDENCE :: real face_detector),
         model_trained = False\<rparr> (Some ([0], [''An'']))"
    by simp
  with h eval show ?thesis by simp
qed

lemmas trainer_defs = train_person_def is_supported_def supported_extensions_def endswith_def
  lower_def lower_char_def extract_face_encodings_def example_faces_dir_def Let_def

subsection \<open>Training one identity, and the batch\<close>

lemma collect_encodings_eq:
  "collect_encodings imgs = map hd (filter (\<lambda>img. img \<noteq> []) imgs)"
  by (induction imgs) (auto simp: extract_face_encodings_def split: list.splits)

lemma collect_encodings_empty:
  "collect_encodings imgs = [] \<longleftrightarrow> list_all (\<lambda>img. img = []) imgs"
  by (induction imgs) (auto simp: extract_face_encodings_def split: list.splits)

text \<open>
  Claim C6 as stated fails: with a minimum of two images, the folder \<open>C\<close> has two readable
  images of which one shows a face, and the identity is trained with a single encoding.
\<close>

theorem train_person_one_encoding_suffices:
  "train_person example_faces_dir ''C'' 2 = (True, Successfully_trained ''C'' 1 2, [7])"
  by (simp add: trainer_defs)

lemma train_all_loop_eq:
  "train_all_loop dir m names acc =
     \<lparr>acc_encodings = acc_encodings acc
         @ concat (map (encodings_of dir m) (filter (trains dir m) names)),
      acc_names = acc_names acc
         @ concat (map (\<lambda>n. replicate (length (encodings_of dir m n)) n)
                     (filter (trains dir m) names)),
      acc_trained = acc_trained acc @ map (trained_entry dir m) (filter (trains dir m) names),
      acc_failed = acc_failed acc
         @ map (failed_entry dir m) (filter (\<lambda>n. \<not> trains dir m n) names)\<rparr>"
proof (induction names arbitrary: acc)
  case Nil
  then show ?case by simp
next
  case (Cons n names)
  obtain ok msg encs where tp: "train_person dir n m = (ok, msg, encs)"
    by (cases "train_person dir n m")
  show ?case
    by (simp add: Cons tp trains_def encodings_of_def trained_entry_def failed_entry_def)
qed

lemma trains_nonempty: "trains dir m n \<Longrightarrow> encodings_of dir m n \<noteq> []"
  by (auto simp: trains_def encodings_of_def train_person_def Let_def
        split: option.splits if_splits)

lemma concat_nonempty:
  "(\<And>x. x \<in> set xs \<Longrightarrow> f x \<noteq> []) \<Longrightarrow> concat (map f xs) = [] \<longleftrightarrow> xs = []"
  by (cases xs) auto

lemma length_concat_replicate:
  "length (concat (map (\<lambda>n. replicate (length (f n)) n) xs)) = length (concat (map f xs))"
  by (induction xs) auto

lemma train_model_loop_eq:
  "train_model_loop dir sts acc =
     \<lparr>st_encodings = st_encodings acc
         @ concat (map (\<lambda>s. encodings_of dir 2 (s_student_code s))
                     (filter (student_trains dir) sts)),
      st_names = st_names acc
         @ concat (map (\<lambda>s. replicate (length (encodings_of dir 2 (s_student_code s)))
                                (s_full_name s))
                     (filter (student_trains dir) sts)),
      st_trained = st_trained acc
         @ map (trained_student_entry dir) (filter (student_trains dir) sts),
      st_failed = st_failed acc
         @ map (failed_student_entry dir) (filter (\<lambda>s. \<not> student_trains dir s) sts)\<rparr>"
proof (induction sts arbitrary: acc)
  case Nil
  then show ?case by simp
next
  case (Cons s sts)
  obtain ok msg encs where tp: "train_person dir (s_student_code s) 2 = (ok, msg, encs)"
    by (cases "train_person dir (s_student_code s) 2")
  have ne: "ok \<Longrightarrow> encs \<noteq> []"
    using trains_nonempty[of dir 2 "s_student_code s"] tp
    by (simp add: trains_def encodings_of_def)
  show ?case
    using ne
    by (cases ok)
       (simp_all add: Cons tp student_trains_def trains_def encodings_of_def
          trained_student_entry_def failed_student_entry_def)
qed

lemma length_concat_replicate_names:
  "length (concat (map (\<lambda>s. replicate (length (f s)) (g s)) xs)) = length (concat (map f xs))"
  by (induction xs) auto

lemma train_model_general:
  fixes svc :: "'e face_service"
  assumes "train_model svc d dir model_file outcome = (results, model_file', svc')"
  shows "map ts_student_code (tm_trained_persons results)
           = map s_student_code (filter (student_trains dir) (candidates d dir))
       \<and> map fs_student_code (tm_failed_persons results)
           = map s_student_code (filter (\<lambda>s. \<not> student_trains dir s) (candidates d dir))
       \<and> tm_success results = (tm_trained_persons results \<noteq> [])
       \<and> (model_file' \<noteq> model_file \<longrightarrow>
            tm_trained_persons results \<noteq> []
            \<and> (\<exists>n. tm_total_encodings results = Some n \<and> 1 \<le> n))
       \<and> (tm_trained_persons results \<noteq> [] \<and> outcome = Written \<longrightarrow>
            (\<exists>encodings names. model_file' = Some (encodings, names)
               \<and> length names = length encodings \<and> encodings \<noteq> []
               \<and> tm_total_encodings results = Some (length encodings))
            \<and> tm_model_path results \<noteq> None)
       \<and> (tm_trained_persons results \<noteq> [] \<and> outcome = Open_failed \<longrightarrow>
            model_file' = model_file \<and> tm_model_path results = None)
       \<and> (tm_trained_persons results \<noteq> [] \<and> outcome = Write_failed \<longrightarrow>
            model_file' = None \<and> tm_model_path results = None)
       \<and> (tm_trained_persons results \<noteq> [] \<longrightarrow> model_trained svc')
       \<and> (tm_trained_persons results = [] \<longrightarrow> model_file' = model_file \<and> svc' = svc)"
proof -
  let ?ready = "filter (\<lambda>s. s_is_active s \<and> s_face_images_count s \<ge> 3) (students d)"
  let ?c = "candidates d dir"
  let ?T = "filter (student_trains dir) ?c"
  let ?encs = "concat (map (\<lambda>s. encodings_of dir 2 (s_student_code s)) ?T)"
  have c: "?c = filter (has_image_folder dir) ?ready"
    by (simp add: candidates_def)
  have encs: "?encs = [] \<longleftrightarrow> ?T = []"
    by (rule concat_nonempty) (auto simp: student_trains_def dest: trains_nonempty)
  show ?thesis
  proof (cases "?c = []")
    case True
    then have "results = \<lparr>tm_success = False, tm_trained_count = 0,
                  tm_failed_count = (if ?ready = [] then 0 else length ?ready),
                  tm_total_encodings = None, tm_trained_persons = [],
                  tm_failed_persons = [], tm_model_path = None\<rparr>
                \<and> model_file' = model_file \<and> svc' = svc"
      using assms c by (auto simp: train_model_def Let_def split: if_splits)
    with True show ?thesis by simp
  next
    case False
    have ready: "?ready \<noteq> []"
    proof
      assume "?ready = []"
      then have "?c = []" by (simp only: c filter.simps)
      with False show False by contradiction
    qed
    let ?acc = "train_model_loop dir ?c
                  \<lparr>st_encodings = [], st_names = [], st_trained = [], st_failed = []\<rparr>"
    let ?R = "\<lparr>tm_success = (length (st_trained ?acc) > 0),
                 tm_trained_count = length (st_trained ?acc),
                 tm_failed_count = length (st_failed ?acc),
                 tm_total_encodings = Some (length (st_encodings ?acc)),
                 tm_trained_persons = st_trained ?acc,
                 tm_failed_persons = st_failed ?acc, tm_model_path = None\<rparr>"
    have acc: "st_encodings ?acc = ?encs"
      "st_trained ?acc = map (trained_student_entry dir) ?T"
      "st_failed ?acc = map (failed_student_entry dir) (filter (\<lambda>s. \<not> student_trains dir s) ?c)"
      "length (st_names ?acc) = length ?encs"
      by (simp_all add: train_model_loop_eq length_concat_replicate_names)
    obtain model_path written
      where sm: "save_model (st_encodings ?acc) (st_names ?acc) outcome model_file
                   = (model_path, written)"
      by (cases "save_model (st_encodings ?acc) (st_names ?acc) outcome model_file")
    have run: "(results, model_file', svc') =
                 (if st_encodings ?acc \<noteq> []
                  then (?R\<lparr>tm_model_path := model_path\<rparr>, written,
                        svc\<lparr>model_trained := True,
                            detector :=
                              (case detector svc of
                                 None \<Rightarrow> None
                               | Some det \<Rightarrow> Some (snd (load_model det written)))\<rparr>)
                  else (?R, model_file, svc))"
      using assms False ready sm
      by (simp add: train_model_def Let_def c[symmetric] del: filter_filter cong: if_cong)
    have lists: "tm_trained_persons results = st_trained ?acc"
      "tm_failed_persons results = st_failed ?acc"
      "tm_success results = (length (st_trained ?acc) > 0)"
      "tm_total_encodings results = Some (length (st_encodings ?acc))"
      using run by (auto split: if_splits)
    have 1: "map ts_student_code (tm_trained_persons results) = map s_student_code ?T"
      by (simp add: lists acc trained_student_entry_def comp_def)
    have 2: "map fs_student_code (tm_failed_persons results)
               = map s_student_code (filter (\<lambda>s. \<not> student_trains dir s) ?c)"
      by (simp add: lists acc failed_student_entry_def comp_def)
    have 3: "tm_success results = (tm_trained_persons results \<noteq> [])"
      by (simp add: lists)
    have t: "tm_trained_persons results \<noteq> [] \<longleftrightarrow> ?T \<noteq> []"
      by (simp add: lists acc)
    show ?thesis
    proof (cases "?T = []")
      case True
      with encs acc(1) run have "model_file' = model_file" "svc' = svc" by simp_all
      with 1 2 3 t True show ?thesis by simp
    next
      case nonempty: False
      with encs acc(1) have ne: "st_encodings ?acc \<noteq> []" by simp
      then have n1: "1 \<le> length (st_encodings ?acc)"
        by (cases "st_encodings ?acc") simp_all
      from run ne
      have out: "tm_model_path results
                   = fst (save_model (st_encodings ?acc) (st_names ?acc) outcome model_file)"
        "model_file' = snd (save_model (st_encodings ?acc) (st_names ?acc) outcome model_file)"
        "model_trained svc'"
        by (simp_all add: sm)
      have len: "length (st_names ?acc) = length (st_encodings ?acc)"
        by (simp add: acc)
      have 4: "model_file' \<noteq> model_file \<longrightarrow>
            tm_trained_persons results \<noteq> []
            \<and> (\<exists>n. tm_total_encodings results = Some n \<and> 1 \<le> n)"
        using t nonempty lists(4) n1 by simp
      have 5: "tm_trained_persons results \<noteq> [] \<and> outcome = Written \<longrightarrow>
            (\<exists>encodings names. model_file' = Some (encodings, names)
               \<and> length names = length encodings \<and> encodings \<noteq> []
               \<and> tm_total_encodings results = Some (length encodings))
            \<and> tm_model_path results \<noteq> None"
        using out ne len lists(4) by (simp add: save_model_def)
      have 6: "tm_trained_persons results \<noteq> [] \<and> outcome = Open_failed \<longrightarrow>
            model_file' = model_file \<and> tm_model_path results = None"
        using out by (simp add: save_model_def)
      have 7: "tm_trained_persons results \<noteq> [] \<and> outcome = Write_failed \<longrightarrow>
            model_file' = None \<and> tm_model_path results = None"
        using out by (simp add: save_model_def)
      have 8: "tm_trained_persons results \<noteq> [] \<longrightarrow> model_trained svc'"
        using out by simp
      have 9: "tm_trained_persons results = [] \<longrightarrow> model_file' = model_file \<and> svc' = svc"
        using t nonempty by simp
      from 1 2 3 4 5 6 7 8 9 show ?thesis by blast
    qed
  qed
qed

lemma train_all_general:
  assumes "train_all (Some folders) model_file outcome m save = (results, model_file')"
  shows "map tp_name (ta_trained_persons results) = filter (trains folders m) (map fst folders)
       \<and> map fp_name (ta_failed_persons results)
           = filter (\<lambda>n. \<not> trains folders m n) (map fst folders)
       \<and> ta_success results = (ta_trained_persons results \<noteq> [])
       \<and> (model_file' \<noteq> model_file \<longrightarrow>
            save \<and> ta_trained_persons results \<noteq> []
            \<and> (\<exists>n. ta_total_encodings results = Some n \<and> 1 \<le> n))
       \<and> (save \<and> ta_trained_persons results \<noteq> [] \<and> outcome = Written \<longrightarrow>
            (\<exists>encodings names. model_file' = Some (encodings, names)
               \<and> length names = length encodings \<and> encodings \<noteq> []
               \<and> ta_total_encodings results = Some (length encodings))
            \<and> ta_model_path results \<noteq> None)
       \<and> (save \<and> ta_trained_persons results \<noteq> [] \<and> outcome = Open_failed \<longrightarrow>
            model_file' = model_file \<and> ta_model_path results = None)
       \<and> (save \<and> ta_trained_persons results \<noteq> [] \<and> outcome = Write_failed \<longrightarrow>
            model_file' = None \<and> ta_model_path results = None)
       \<and> (\<not> (save \<and> ta_trained_persons results \<noteq> []) \<longrightarrow>
            model_file' = model_file \<and> ta_model_path results = None)"
proof (cases "folders = []")
  case True
  with assms show ?thesis by (auto simp: train_all_def)
next
  case False
  let ?names = "map fst folders"
  let ?T = "filter (trains folders m) ?names"
  let ?encs = "concat (map (encodings_of folders m) ?T)"
  let ?acc = "train_all_loop folders m ?names
                \<lparr>acc_encodings = [], acc_names = [], acc_trained = [], acc_failed = []\<rparr>"
  let ?w = "if save \<and> acc_encodings ?acc \<noteq> []
            then save_model (acc_encodings ?acc) (acc_names ?acc) outcome model_file
            else (None, model_file)"
  have encs: "?encs = [] \<longleftrightarrow> ?T = []"
    by (rule concat_nonempty) (auto dest: trains_nonempty)
  have acc: "acc_encodings ?acc = ?encs"
    "acc_trained ?acc = map (trained_entry folders m) ?T"
    "acc_failed ?acc = map (failed_entry folders m) (filter (\<lambda>n. \<not> trains folders m n) ?names)"
    "length (acc_names ?acc) = length ?encs"
    by (simp_all add: train_all_loop_eq length_concat_replicate)
  have res: "results = \<lparr>ta_success = (length (acc_trained ?acc) > 0),
                ta_total_encodings = Some (length (acc_encodings ?acc)),
                ta_trained_persons = acc_trained ?acc,
                ta_failed_persons = acc_failed ?acc,
                ta_model_path = fst ?w\<rparr>"
    and saved: "model_file' = snd ?w"
    using assms False by (simp_all add: train_all_def Let_def)
  have entry: "tp_name (trained_entry folders m n) = n" for n
    by (simp add: trained_entry_def split: prod.splits)
  have 1: "map tp_name (ta_trained_persons results) = ?T"
    by (simp add: res acc comp_def entry)
  have 2: "map fp_name (ta_failed_persons results) = filter (\<lambda>n. \<not> trains folders m n) ?names"
    by (simp add: res acc failed_entry_def comp_def)
  have 3: "ta_success results = (ta_trained_persons results \<noteq> [])"
    by (simp add: res)
  have t: "ta_trained_persons results \<noteq> [] \<longleftrightarrow> acc_encodings ?acc \<noteq> []"
    using encs by (simp add: res acc)
  have path: "ta_model_path results = fst ?w" and total:
    "ta_total_encodings results = Some (length (acc_encodings ?acc))"
    by (simp_all add: res)
  have len: "length (acc_names ?acc) = length (acc_encodings ?acc)"
    by (simp add: acc)
  have n1: "acc_encodings ?acc \<noteq> [] \<Longrightarrow> 1 \<le> length (acc_encodings ?acc)"
    by (cases "acc_encodings ?acc") simp_all
  have 4: "model_file' \<noteq> model_file \<longrightarrow>
            save \<and> ta_trained_persons results \<noteq> []
            \<and> (\<exists>n. ta_total_encodings results = Some n \<and> 1 \<le> n)"
    using saved t total n1 by (auto split: if_splits)
  have 5: "save \<and> ta_trained_persons results \<noteq> [] \<and> outcome = Written \<longrightarrow>
            (\<exists>encodings names. model_file' = Some (encodings, names)
               \<and> length names = length encodings \<and> encodings \<noteq> []
               \<and> ta_total_encodings results = Some (length encodings))
            \<and> ta_model_path results \<noteq> None"
    using saved path t total len by (simp add: save_model_def)
  have 6: "save \<and> ta_trained_persons results \<noteq> [] \<and> outcome = Open_failed \<longrightarrow>
            model_file' = model_file \<and> ta_model_path results = None"
    using saved path t by (simp add: save_model_def)
  have 7: "save \<and> ta_trained_persons results \<noteq> [] \<and> outcome = Write_failed \<longrightarrow>
            model_file' = None \<and> ta_model_path results = None"
    using saved path t by (simp add: save_model_def)
  have 8: "\<not> (save \<and> ta_trained_persons results \<noteq> []) \<longrightarrow>
            model_file' = model_file \<and> ta_model_path results = None"
    using saved path t by auto
  from 1 2 3 4 5 6 7 8 show ?thesis by blast
qed

lemma conj_append9:
  "A1 \<and> A2 \<and> A3 \<and> A4 \<and> A5 \<and> A6 \<and> A7 \<and> A8 \<and> A9 \<Longrightarrow> B
     \<Longrightarrow> A1 \<and> A2 \<and> A3 \<and> A4 \<and> A5 \<and> A6 \<and> A7 \<and> A8 \<and> A9 \<and> B"
  by blast

text \<open>
  Claim C5, amended. \<^const>\<open>train_model\<close> and \<^const>\<open>train_all\<close> always return a result. Every
  candidate of \<^const>\<open>train_model\<close> (an active student with three registered images and a
  folder of two image files), and every person folder of \<^const>\<open>train_all\<close>, is listed once,
  among the trained when its training succeeds and among the failed otherwise, in the order
  of the batch; the students that are no candidates are not listed. The result is unsuccessful
  only when no identity trained. The model file is touched only if some identity trained, so
  that there is at least one encoding, and by \<^const>\<open>train_all\<close> only if saving was asked for.
  A write that succeeds replaces the file by the whole pair of aligned lists. A write that
  fails is not raised: the result has no model path and is successful all the same, and the
  file is the old one when it could not be opened, and unreadable when the write broke off.
\<close>

theorem gallery_build_reports:
  fixes svc :: "'e face_service"
  assumes service: "train_model svc d dir model_file outcome = (results, model_file', svc')"
    and trainer: "train_all (Some folders) trainer_file trainer_outcome m save
                    = (all_results, trainer_file')"
  shows "map ts_student_code (tm_trained_persons results)
           = map s_student_code (filter (student_trains dir) (candidates d dir))
       \<and> map fs_student_code (tm_failed_persons results)
           = map s_student_code (filter (\<lambda>s. \<not> student_trains dir s) (candidates d dir))
       \<and> tm_success results = (tm_trained_persons results \<noteq> [])
       \<and> (model_file' \<noteq> model_file \<longrightarrow>
            tm_trained_persons results \<noteq> []
            \<and> (\<exists>n. tm_total_encodings results = Some n \<and> 1 \<le> n))
       \<and> (tm_trained_persons results \<noteq> [] \<and> outcome = Written \<longrightarrow>
            (\<exists>encodings names. model_file' = Some (encodings, names)
               \<and> length names = length encodings \<and> encodings \<noteq> []
               \<and> tm_total_encodings results = Some (length encodings))
            \<and> tm_model_path results \<noteq> None)
       \<and> (tm_trained_persons results \<noteq> [] \<and> outcome = Open_failed \<longrightarrow>
            model_file' = model_file \<and> tm_model_path results = None)
       \<and> (tm_trained_persons results \<noteq> [] \<and> outcome = Write_failed \<longrightarrow>
            model_file' = None \<and> tm_model_path results = None)
       \<and> (tm_trained_persons results \<noteq> [] \<longrightarrow> model_trained svc')
       \<and> (tm_trained_persons results = [] \<longrightarrow> model_file' = model_file \<and> svc' = svc)
       \<and> map tp_name (ta_trained_persons all_results) = filter (trains folders m) (map fst folders)
       \<and> map fp_name (ta_failed_persons all_results)
           = filter (\<lambda>n. \<not> trains folders m n) (map fst folders)
       \<and> ta_success all_results = (ta_trained_persons all_results \<noteq> [])
       \<and> (trainer_file' \<noteq> trainer_file \<longrightarrow>
            save \<and> ta_trained_persons all_results \<noteq> []
            \<and> (\<exists>n. ta_total_encodings all_results = Some n \<and> 1 \<le> n))
       \<and> (save \<and> ta_trained_persons all_results \<noteq> [] \<and> trainer_outcome = Written \<longrightarrow>
            (\<exists>encodings names. trainer_file' = Some (encodings, names)
               \<and> length names = length encodings \<and> encodings \<noteq> []
               \<and> ta_total_encodings all_results = Some (length encodings))
            \<and> ta_model_path all_results \<noteq> None)
       \<and> (save \<and> ta_trained_persons all_results \<noteq> [] \<and> trainer_outcome = Open_failed \<longrightarrow>
            trainer_file' = trainer_file \<and> ta_model_path all_results = None)
       \<and> (save \<and> ta_trained_persons all_results \<noteq> [] \<and> trainer_outcome = Write_failed \<longrightarrow>
            trainer_file' = None \<and> ta_model_path all_results = None)
       \<and> (\<not> (save \<and> ta_trained_persons all_results \<noteq> []) \<longrightarrow>
            trainer_file' = trainer_file \<and> ta_model_path all_results = None)"
proof -
  note a = train_model_general[OF service]
  note b = train_all_general[OF trainer]
  show ?thesis
    by (rule conj_append9[OF a b])
qed

lemma trains_partition:
  assumes "name \<in> set (map fst folders)"
    and "train_all (Some folders) model_file outcome m save = (results, model_file')"
  shows "if trains folders m name
         then name \<in> tp_name ` set (ta_trained_persons results)
              \<and> name \<notin> fp_name ` set (ta_failed_persons results)
         else name \<in> fp_name ` set (ta_failed_persons results)
              \<and> name \<notin> tp_name ` set (ta_trained_persons results)"
proof -
  from train_all_general[OF assms(2)]
  have t: "map tp_name (ta_trained_persons results) = filter (trains folders m) (map fst folders)"
    and f: "map fp_name (ta_failed_persons results)
              = filter (\<lambda>n. \<not> trains folders m n) (map fst folders)"
    by simp_all
  have "tp_name ` set (ta_trained_persons results) = set (map tp_name (ta_trained_persons results))"
    "fp_name ` set (ta_failed_persons results) = set (map fp_name (ta_failed_persons results))"
    by simp_all
  then show ?thesis
    unfolding t f using assms(1) by auto
qed

text \<open>
  Claim C6, amended. \<^const>\<open>train_person\<close> fails for an identity without a folder, and for one
  with fewer readable image files (of a supported extension) than the minimum. Otherwise it
  collects the first encoding of every image in which a face is found, skipping the others,
  and succeeds exactly when at least one image yields an encoding; the images without a face
  count towards the minimum all the same. In \<^const>\<open>train_all\<close> an identity with a folder is
  listed among the trained persons when \<^const>\<open>train_person\<close> succeeds for it, and among the
  failed persons when it does not, never in both: so with a minimum of three, three images
  with a face train the identity and a single image fails it.
\<close>

theorem train_person_success_criterion:
  "train_person student_faces_dir person_name min_images =
     (case map_of student_faces_dir person_name of
        None \<Rightarrow> (False, Folder_not_found person_name, [])
      | Some folder \<Rightarrow>
          if int (length (load_images_from_folder folder)) < min_images
          then (False,
                Not_enough_images person_name (length (load_images_from_folder folder)) min_images,
                [])
          else if list_all (\<lambda>img. img = []) (load_images_from_folder folder)
          then (False, No_valid_face_encodings person_name, [])
          else (True,
                Successfully_trained person_name
                  (length (filter (\<lambda>img. img \<noteq> []) (load_images_from_folder folder)))
                  (length (load_images_from_folder folder)),
                map hd (filter (\<lambda>img. img \<noteq> []) (load_images_from_folder folder))))
   \<and> (person_name \<in> set (map fst student_faces_dir) \<longrightarrow>
        (if fst (train_person student_faces_dir person_name min_images)
         then person_name \<in> tp_name ` set (ta_trained_persons
                (fst (train_all (Some student_faces_dir) model_file outcome min_images save)))
              \<and> person_name \<notin> fp_name ` set (ta_failed_persons
                (fst (train_all (Some student_faces_dir) model_file outcome min_images save)))
         else person_name \<in> fp_name ` set (ta_failed_persons
                (fst (train_all (Some student_faces_dir) model_file outcome min_images save)))
              \<and> person_name \<notin> tp_name ` set (ta_trained_persons
                (fst (train_all (Some student_faces_dir) model_file outcome min_images save)))))"
proof -
  have 1: "train_person student_faces_dir person_name min_images =
     (case map_of student_faces_dir person_name of
        None \<Rightarrow> (False, Folder_not_found person_name, [])
      | Some folder \<Rightarrow>
          if int (length (load_images_from_folder folder)) < min_images
          then (False,
                Not_enough_images person_name (length (load_images_from_folder folder)) min_images,
                [])
          else if list_all (\<lambda>img. img = []) (load_images_from_folder folder)
          then (False, No_valid_face_encodings person_name, [])
          else (True,
                Successfully_trained person_name
                  (length (filter (\<lambda>img. img \<noteq> []) (load_images_from_folder folder)))
                  (length (load_images_from_folder folder)),
                map hd (filter (\<lambda>img. img \<noteq> []) (load_images_from_folder folder))))"
    by (simp add: train_person_def Let_def collect_encodings_empty split: option.splits)
       (simp add: collect_encodings_eq)
  obtain r f where call: "train_all (Some student_faces_dir) model_file outcome min_images save = (r, f)"
    by (cases "train_all (Some student_faces_dir) model_file outcome min_images save")
  have 2: "person_name \<in> set (map fst student_faces_dir) \<longrightarrow>
        (if fst (train_person student_faces_dir person_name min_images)
         then person_name \<in> tp_name ` set (ta_trained_persons r)
              \<and> person_name \<notin> fp_name ` set (ta_failed_persons r)
         else person_name \<in> fp_name ` set (ta_failed_persons r)
              \<and> person_name \<notin> tp_name ` set (ta_trained_persons r))"
    using trains_partition[OF _ call, of person_name] by (simp add: trains_def)
  from 1 2 show ?thesis
    unfolding call fst_conv by (rule conjI)
qed


lemmas training_defs = trainer_defs train_model_def train_all_def has_image_folder_def
  example_pupil_def example_training_db_def example_store_def example_service_def

lemma example_train_person:
  "train_person example_faces_dir ''A'' 2 = (True, Successfully_trained ''A'' 3 3, [1 / 10, 2 / 10, 3 / 10])"
  "train_person example_faces_dir ''B'' 2 = (False, Not_enough_images ''B'' 1 2, [])"
  "train_person example_faces_dir ''C'' 2 = (True, Successfully_trained ''C'' 1 2, [7])"
  "train_person example_faces_dir ''A'' 3 = (True, Successfully_trained ''A'' 3 3, [1 / 10, 2 / 10, 3 / 10])"
  "train_person example_faces_dir ''B'' 3 = (False, Not_enough_images ''B'' 1 3, [])"
  "train_person example_faces_dir ''C'' 3 = (False, Not_enough_images ''C'' 2 3, [])"
  by (simp_all add: trainer_defs)

lemma example_train_model:
  "train_model example_service example_training_db example_faces_dir model_file outcome =
     (\<lparr>tm_success = True, tm_trained_count = 2, tm_failed_count = 0,
       tm_total_encodings = Some 4,
       tm_trained_persons =
         [\<lparr>ts_student_code = ''A'', ts_full_name = ''An'', ts_encodings_count = 3,
           ts_message = Successfully_trained ''A'' 3 3\<rparr>,
          \<lparr>ts_student_code = ''C'', ts_full_name = ''Chi'', ts_encodings_count = 1,
           ts_message = Successfully_trained ''C'' 1 2\<rparr>],
       tm_failed_persons = [],
       tm_model_path =
         fst (save_model [1 / 10, 2 / 10, 3 / 10, 7] [''An'', ''An'', ''An'', ''Chi''] outcome
                model_file)\<rparr>,
      snd (save_model [1 / 10, 2 / 10, 3 / 10, 7] [''An'', ''An'', ''An'', ''Chi''] outcome
             model_file),
      \<lparr>detector = None, model_trained = True\<rparr>)"
proof -
  have r: "filter (\<lambda>s. s_is_active s \<and> s_face_images_count s \<ge> 3)
             (students example_training_db)
           = [example_pupil 1 ''A'' ''An'' 3, example_pupil 3 ''C'' ''Chi'' 3]"
    by (simp add: example_training_db_def example_store_def example_pupil_def)
  have c: "filter (has_image_folder example_faces_dir)
             [example_pupil 1 ''A'' ''An'' 3, example_pupil 3 ''C'' ''Chi'' 3]
           = [example_pupil 1 ''A'' ''An'' 3, example_pupil 3 ''C'' ''Chi'' 3]"
    by (simp add: has_image_folder_def example_pupil_def trainer_defs)
  have code: "s_student_code (example_pupil i c n k) = c" "s_full_name (example_pupil i c n k) = n"
    for i c n k
    by (simp_all add: example_pupil_def)
  show ?thesis
    unfolding train_model_def Let_def r c
    by (simp add: example_train_person code example_service_def split: prod.splits)
qed

lemma example_train_all:
  "train_all (Some example_faces_dir) (None :: (real list \<times> string list) option) Written 3 True =
     (\<lparr>ta_success = True, ta_total_encodings = Some 3,
       ta_trained_persons =
         [\<lparr>tp_name = ''A'', tp_encodings_count = 3,
           tp_message = Successfully_trained ''A'' 3 3\<rparr>],
       ta_failed_persons =
         [\<lparr>fp_name = ''B'', fp_message = Not_enough_images ''B'' 1 3\<rparr>,
          \<lparr>fp_name = ''C'', fp_message = Not_enough_images ''C'' 2 3\<rparr>],
       ta_model_path = Some ''face_encodings.pkl''\<rparr>,
      Some ([1 / 10, 2 / 10, 3 / 10], [''A'', ''A'', ''A'']))"
proof -
  have n: "map fst example_faces_dir = [''A'', ''B'', ''C'']" and ne: "example_faces_dir \<noteq> []"
    by (simp_all add: example_faces_dir_def)
  show ?thesis
    unfolding train_all_def Let_def
    by (simp add: n ne example_train_person save_model_def)
qed

text \<open>
  Claim C5 as stated fails for \<^const>\<open>train_model\<close>. The student \<open>B\<close>, with one image, has too
  few images to be trained, and the result lists that failure nowhere. The write of the model
  file breaks off after the file was emptied: the call reports success, and the file it leaves
  is neither the old gallery nor the new one.
\<close>

theorem train_model_drops_student_and_damages_file:
  "train_person example_faces_dir ''B'' 2 = (False, Not_enough_images ''B'' 1 2, [])
   \<and> train_model example_service example_training_db example_faces_dir
        (Some ([5], [''Old''])) Write_failed =
     (\<lparr>tm_success = True, tm_trained_count = 2, tm_failed_count = 0,
       tm_total_encodings = Some 4,
       tm_trained_persons =
         [\<lparr>ts_student_code = ''A'', ts_full_name = ''An'', ts_encodings_count = 3,
           ts_message = Successfully_trained ''A'' 3 3\<rparr>,
          \<lparr>ts_student_code = ''C'', ts_full_name = ''Chi'', ts_encodings_count = 1,
           ts_message = Successfully_trained ''C'' 1 2\<rparr>],
       tm_failed_persons = [], tm_model_path = None\<rparr>,
      None,
      \<lparr>detector = None, model_trained = True\<rparr>)"
  by (simp add: example_train_model example_train_person save_model_def)

theorem gallery_build_reports_witness:
  "train_model example_service example_training_db example_faces_dir None Written =
     (\<lparr>tm_success = True, tm_trained_count = 2, tm_failed_count = 0,
       tm_total_encodings = Some 4,
       tm_trained_persons =
         [\<lparr>ts_student_code = ''A'', ts_full_name = ''An'', ts_encodings_count = 3,
           ts_message = Successfully_trained ''A'' 3 3\<rparr>,
          \<lparr>ts_student_code = ''C'', ts_full_name = ''Chi'', ts_encodings_count = 1,
           ts_message = Successfully_trained ''C'' 1 2\<rparr>],
       tm_failed_persons = [], tm_model_path = Some ''face_encodings.pkl''\<rparr>,
      Some ([1 / 10, 2 / 10, 3 / 10, 7], [''An'', ''An'', ''An'', ''Chi'']),
      \<lparr>detector = None, model_trained = True\<rparr>)
   \<and> train_all (Some example_faces_dir) (None :: (real list \<times> string list) option) Written 3 True =
     (\<lparr>ta_success = True, ta_total_encodings = Some 3,
       ta_trained_persons =
         [\<lparr>tp_name = ''A'', tp_encodings_count = 3,
           tp_message = Successfully_trained ''A'' 3 3\<rparr>],
       ta_failed_persons =
         [\<lparr>fp_name = ''B'', fp_message = Not_enough_images ''B'' 1 3\<rparr>,
          \<lparr>fp_name = ''C'', fp_message = Not_enough_images ''C'' 2 3\<rparr>],
       ta_model_path = Some ''face_encodings.pkl''\<rparr>,
      Some ([1 / 10, 2 / 10, 3 / 10], [''A'', ''A'', ''A'']))
   \<and> map s_student_code (filter (student_trains example_faces_dir)
          (candidates example_training_db example_faces_dir)) = [''A'', ''C'']
   \<and> map s_student_code (filter (\<lambda>s. \<not> student_trains example_faces_dir s)
          (candidates example_training_db example_faces_dir)) = []
   \<and> filter (trains example_faces_dir 3) (map fst example_faces_dir) = [''A'']
   \<and> filter (\<lambda>n. \<not> trains example_faces_dir 3 n) (map fst example_faces_dir) = [''B'', ''C'']"
proof -
  have m: "train_model example_service example_training_db example_faces_dir None Written =
     (\<lparr>tm_success = True, tm_trained_count = 2, tm_failed_count = 0,
       tm_total_encodings = Some 4,
       tm_trained_persons =
         [\<lparr>ts_student_code = ''A'', ts_full_name = ''An'', ts_encodings_count = 3,
           ts_message = Successfully_trained ''A'' 3 3\<rparr>,
          \<lparr>ts_student_code = ''C'', ts_full_name = ''Chi'', ts_encodings_count = 1,
           ts_message = Successfully_trained ''C'' 1 2\<rparr>],
       tm_failed_persons = [], tm_model_path = Some ''face_encodings.pkl''\<rparr>,
      Some ([1 / 10, 2 / 10, 3 / 10, 7], [''An'', ''An'', ''An'', ''Chi'']),
      \<lparr>detector = None, model_trained = True\<rparr>)"
    by (simp add: example_train_model save_model_def)
  show ?thesis
    using gallery_build_reports[OF m example_train_all] m example_train_all
    by simp
qed

theorem train_person_success_criterion_witness:
  "''A'' \<in> set (map fst example_faces_dir) \<and> ''B'' \<in> set (map fst example_faces_dir)
   \<and> train_person example_faces_dir ''A'' 3
       = (True, Successfully_trained ''A'' 3 3, [1 / 10, 2 / 10, 3 / 10])
   \<and> ''A'' \<in> tp_name ` set (ta_trained_persons
        (fst (train_all (Some example_faces_dir) (None :: (real list \<times> string list) option)
                Written 3 True)))
   \<and> train_person example_faces_dir ''B'' 3 = (False, Not_enough_images ''B'' 1 3, [])
   \<and> ''B'' \<in> fp_name ` set (ta_failed_persons
        (fst (train_all (Some example_faces_dir) (None :: (real list \<times> string list) option)
                Written 3 True)))"
proof -
  have a: "''A'' \<in> set (map fst example_faces_dir)" and b: "''B'' \<in> set (map fst example_faces_dir)"
    by (simp_all add: example_faces_dir_def)
  from train_person_success_criterion[of example_faces_dir "''A''" 3
         "None :: (real list \<times> string list) option" Written True] a
  have 1: "''A'' \<in> tp_name ` set (ta_trained_persons
        (fst (train_all (Some example_faces_dir) (None :: (real list \<times> string list) option)
                Written 3 True)))"
    by (simp add: example_train_person)
  from train_person_success_criterion[of example_faces_dir "''B''" 3
         "None :: (real list \<times> string list) option" Written True] b
  have 2: "''B'' \<in> fp_name ` set (ta_failed_persons
        (fst (train_all (Some example_faces_dir) (None :: (real list \<times> string list) option)
                Written 3 True)))"
    by (simp add: example_train_person)
  from a b 1 2 show ?thesis
    by (simp add: example_train_person)
qed

end
